(* ===== verification/Prelude.thy ===== *)
theory Prelude
  imports Main "HOL-Library.Sublist"
begin

text \<open>
  Shared vocabulary of the development of \<^verbatim>\<open>src/configure.py\<close>: the characters the
  source writes as escapes, the collections of rewrite rules the component theories
  feed, and generic lemmas on lists and strings that several components use.
\<close>

section \<open>Characters the source names by escape\<close>

abbreviation nl :: char where "nl \<equiv> CHR 0x0A"
abbreviation tab :: char where "tab \<equiv> CHR 0x09"
abbreviation cr :: char where "cr \<equiv> CHR 0x0D"
abbreviation bslash :: char where "bslash \<equiv> CHR 0x5C"
abbreviation squote :: char where "squote \<equiv> CHR 0x27"
abbreviation dquote :: char where "dquote \<equiv> CHR 0x22"

text \<open>A string without a line terminator: one line of the generated header.\<close>

definition one_line :: "string \<Rightarrow> bool" where
  "one_line s \<longleftrightarrow> nl \<notin> set s"

section \<open>Rule collections\<close>

text \<open>
  \<open>world_simps\<close> collects the equations of the primitive effects (printing, file
  removal and creation, the macro buffer) and of the exception monad. Component
  proofs use \<open>simp add: world_simps\<close>.
\<close>

named_theorems world_simps "equations of the primitive world effects"

section \<open>Generic list lemmas\<close>

lemma one_line_append [simp]: "one_line (xs @ ys) \<longleftrightarrow> one_line xs \<and> one_line ys"
  by (auto simp: one_line_def)

lemma one_line_Cons [simp]: "one_line (c # xs) \<longleftrightarrow> c \<noteq> nl \<and> one_line xs"
  by (auto simp: one_line_def)

lemma one_line_Nil [simp]: "one_line []"
  by (simp add: one_line_def)

lemma one_line_concat: "(\<forall>x \<in> set xs. one_line x) \<Longrightarrow> one_line (concat xs)"
  by (induction xs) auto

lemma prefix_append_self [intro]: "prefix xs (xs @ ys)"
  by simp

end
