(* ===== verification/PyStr.thy ===== *)
theory PyStr
  imports Prelude
begin

text \<open>
  The Python string built-ins that \<^verbatim>\<open>src/configure.py\<close> calls: \<open>sep.join\<close>,
  \<open>str.ljust\<close>, \<open>str.removesuffix\<close> and \<open>repr\<close> (the \<open>!r\<close> conversion of an
  f-string). They are library code, modelled from CPython's documented behaviour
  (\<open>unicode_repr\<close> for \<open>repr\<close>), for strings whose code points are below 256,
  which is what an Isabelle \<open>char\<close> holds. The theory proves that \<open>repr\<close> can be
  parsed back (a round trip through a decoder of Python string literals), that its
  output is one line, and the facts on \<open>join\<close> and \<open>removesuffix\<close> that the
  header emitter needs.
\<close>

section \<open>join, ljust, removesuffix\<close>

fun py_join :: "string \<Rightarrow> string list \<Rightarrow> string" where
  "py_join sep [] = []"
| "py_join sep [x] = x"
| "py_join sep (x # y # zs) = x @ sep @ py_join sep (y # zs)"

definition py_ljust :: "string \<Rightarrow> nat \<Rightarrow> char \<Rightarrow> string" where
  "py_ljust s w c = s @ replicate (w - length s) c"

definition py_removesuffix :: "string \<Rightarrow> string \<Rightarrow> string" where
  "py_removesuffix s suf =
     (if suf \<noteq> [] \<and> suffix suf s then take (length s - length suf) s else s)"

text \<open>\<open>str.split(sep)\<close> for a one-character separator, the inverse of \<open>join\<close>.\<close>

fun py_split :: "char \<Rightarrow> string \<Rightarrow> string list" where
  "py_split c [] = [[]]"
| "py_split c (x # xs) =
     (if x = c then [] # py_split c xs
      else (case py_split c xs of [] \<Rightarrow> [[x]] | y # ys \<Rightarrow> (x # y) # ys))"

section \<open>repr of a str\<close>

definition hexdig :: "nat \<Rightarrow> char" where
  "hexdig n = ''0123456789abcdef'' ! n"

definition hexval :: "char \<Rightarrow> nat option" where
  "hexval c = (let n = of_char c :: nat in
                 if 0x30 \<le> n \<and> n \<le> 0x39 then Some (n - 0x30)
                 else if 0x61 \<le> n \<and> n \<le> 0x66 then Some (n - 0x57)
                 else None)"

text \<open>
  The quote CPython chooses: a single quote, unless the text holds a single quote
  and no double quote.
\<close>

definition repr_quote :: "string \<Rightarrow> char" where
  "repr_quote s = (if squote \<in> set s \<and> dquote \<notin> set s then dquote else squote)"

text \<open>
  Code points below 256 that \<open>str.isprintable\<close> rejects: the C0 controls, DEL,
  the C1 controls, NO-BREAK SPACE and SOFT HYPHEN.
\<close>

definition nonprintable :: "char \<Rightarrow> bool" where
  "nonprintable c \<longleftrightarrow>
     (let n = of_char c :: nat in n < 0x20 \<or> n = 0x7F \<or> (0x80 \<le> n \<and> n \<le> 0xA0) \<or> n = 0xAD)"

definition repr_char :: "char \<Rightarrow> char \<Rightarrow> string" where
  "repr_char q c =
     (if c = q \<or> c = bslash then [bslash, c]
      else if c = tab then [bslash, CHR ''t'']
      else if c = nl then [bslash, CHR ''n'']
      else if c = cr then [bslash, CHR ''r'']
      else if nonprintable c
        then [bslash, CHR ''x'', hexdig (of_char c div 16), hexdig (of_char c mod 16)]
      else [c])"

definition py_repr :: "string \<Rightarrow> string" where
  "py_repr s = (let q = repr_quote s in q # concat (map (repr_char q) s) @ [q])"

section \<open>A decoder of Python string literals\<close>

fun unescape :: "char \<Rightarrow> string \<Rightarrow> string option" where
  "unescape q [] = None"
| "unescape q [c] = (if c = q then Some [] else None)"
| "unescape q (c # d # ds) =
     (if c = q then None
      else if c = bslash then
        (if d = CHR ''t'' then map_option (Cons tab) (unescape q ds)
         else if d = CHR ''n'' then map_option (Cons nl) (unescape q ds)
         else if d = CHR ''r'' then map_option (Cons cr) (unescape q ds)
         else if d = bslash \<or> d = squote \<or> d = dquote then map_option (Cons d) (unescape q ds)
         else if d = CHR ''x'' then
           (case ds of
              h1 # h2 # es \<Rightarrow>
                (case (hexval h1, hexval h2) of
                   (Some a, Some b) \<Rightarrow> map_option (Cons (char_of (16 * a + b))) (unescape q es)
                 | _ \<Rightarrow> None)
            | _ \<Rightarrow> None)
         else None)
      else map_option (Cons c) (unescape q (d # ds)))"

definition py_unrepr :: "string \<Rightarrow> string option" where
  "py_unrepr s =
     (case s of
        q # rest \<Rightarrow> if q = squote \<or> q = dquote then unescape q rest else None
      | [] \<Rightarrow> None)"

section \<open>Facts on the model\<close>

lemma hexval_hexdig_all: "\<forall>n<16. hexval (hexdig n) = Some n \<and> hexdig n \<noteq> nl"
  by code_simp

lemma hexval_hexdig: "n < 16 \<Longrightarrow> hexval (hexdig n) = Some n"
  using hexval_hexdig_all by blast

lemma hexdig_not_nl: "n < 16 \<Longrightarrow> hexdig n \<noteq> nl"
  using hexval_hexdig_all by blast

lemma of_char_less_256: "of_char c < (256::nat)"
  by (metis of_char_mod_256 mod_less_divisor zero_less_numeral)

lemma of_char_div_16: "of_char c div 16 < (16::nat)"
  using of_char_less_256 [of c] by (simp add: div_less_iff_less_mult)

lemma unescape_repr_char:
  assumes q: "q = squote \<or> q = dquote"
  shows "unescape q (repr_char q c @ rest) = map_option (Cons c) (unescape q rest)"
proof -
  have lt: "of_char c div 16 < (16::nat)" "of_char c mod 16 < (16::nat)"
    by (simp_all add: of_char_div_16)
  have ch: "char_of (16 * (of_char c div 16) + of_char c mod 16 :: nat) = c"
    by simp
  show ?thesis
  proof (cases rest)
    case Nil
    then show ?thesis using q
      by (auto simp: repr_char_def hexval_hexdig lt ch)
  next
    case (Cons r rs)
    then show ?thesis using q
      by (auto simp: repr_char_def hexval_hexdig lt ch)
  qed
qed

lemma unescape_repr_body:
  assumes "q = squote \<or> q = dquote"
  shows "unescape q (concat (map (repr_char q) s) @ [q]) = Some s"
  using assms by (induction s) (simp_all add: unescape_repr_char)

lemma repr_quote_cases: "repr_quote s = squote \<or> repr_quote s = dquote"
  by (simp add: repr_quote_def)

lemma py_unrepr_py_repr: "py_unrepr (py_repr s) = Some s"
  using repr_quote_cases [of s]
  by (auto simp: py_unrepr_def py_repr_def Let_def unescape_repr_body)

lemma one_line_repr_char: "q \<noteq> nl \<Longrightarrow> one_line (repr_char q c)"
  by (simp add: repr_char_def hexdig_not_nl of_char_div_16)

lemma one_line_py_repr: "one_line (py_repr s)"
  using repr_quote_cases [of s]
  by (auto simp: py_repr_def Let_def one_line_repr_char intro!: one_line_concat)

lemma py_split_append: "c \<notin> set x \<Longrightarrow> py_split c (x @ c # ys) = x # py_split c ys"
  by (induction x) auto

lemma py_split_no_sep: "c \<notin> set x \<Longrightarrow> py_split c x = [x]"
  by (induction x) auto

lemma py_split_join:
  "xs \<noteq> [] \<Longrightarrow> \<forall>x\<in>set xs. c \<notin> set x \<Longrightarrow> py_split c (py_join [c] xs) = xs"
  by (induction "[c]" xs rule: py_join.induct) (auto simp: py_split_append py_split_no_sep)

lemma py_removesuffix_hit: "py_removesuffix (s @ [c]) [c] = s"
  by (simp add: py_removesuffix_def)

lemma py_removesuffix_miss: "\<not> suffix [c] s \<Longrightarrow> py_removesuffix s [c] = s"
  by (simp add: py_removesuffix_def)

end
