(* ===== verification/Host.thy ===== *)
theory Host
  imports PyStr "HOL-Library.AList"
begin

text \<open>
  The world the script acts on and the host it consults. The host (\<open>host\<close>) is a
  record of oracles, fixed for a run: the executable search path, the \<open>MSYSTEM\<close>
  variable, the compiler, the programs the compiler produces, the shell, and whether
  the file operations the script performs are permitted. The world (\<open>world\<close>) is the
  state the script changes: the files of the scratch directory \<^verbatim>\<open>./configure\<close>, whether
  that directory exists and is the working directory, the global list \<open>GEN\<close>, the text
  printed on standard output, the generated header \<^verbatim>\<open>../src/config.h\<close> and the atexit
  registry. A Python function is a \<open>'a pyfun\<close>: it takes the world and returns a value
  or an abrupt completion (\<open>SystemExit\<close> or another exception) with the new world, so
  that state changes made before an exception are kept, as in Python.
\<close>

section \<open>Host oracles\<close>

text \<open>Exceptions other than \<open>SystemExit\<close> that the script's calls can raise.\<close>

datatype fault =
    FileNotFound        \<comment> \<open>\<open>os.remove\<close> or \<open>subprocess.run\<close> on a missing path\<close>
  | WriteFailed         \<comment> \<open>\<open>open(..., "w")\<close> refused\<close>
  | SpawnFailed         \<comment> \<open>\<open>subprocess.run\<close> cannot start the program\<close>
  | DecodeFailed        \<comment> \<open>\<open>bytes.decode('utf-8')\<close> on invalid UTF-8\<close>
  | NotADirectory       \<comment> \<open>\<open>os.chdir\<close> refused\<close>
  | FileExists          \<comment> \<open>\<open>os.mkdir\<close> on an existing path\<close>
  | DirNotEmpty         \<comment> \<open>\<open>os.rmdir\<close> on a non-empty directory\<close>

datatype abrupt = SysExit int | Raised fault

text \<open>
  Contents of a file of the scratch directory: a source the script wrote, a program
  the compiler produced (abstracted to the source and the command line it was built
  from), or data a probe program wrote.
\<close>

datatype fcontent = Source string | Binary string "string list" | Data

record host =
  msystem :: "string option"
  on_path :: "string \<Rightarrow> bool"
  ws_writable :: bool
  gcc :: "string list \<Rightarrow> string \<Rightarrow> (int \<times> string option) option"
  run_bin :: "fcontent \<Rightarrow> (int \<times> string list) option"
  bash :: "string \<Rightarrow> (int \<times> string option) option"
  ws_enterable :: bool
  header_writable :: bool

text \<open>
  \<open>gcc h args src\<close> is the return code and the decoded standard error of the compiler
  run on \<open>args\<close> while \<^verbatim>\<open>./test.c\<close> holds \<open>src\<close> (\<open>None\<close>: it cannot be started;
  a \<open>None\<close> standard error does not decode). \<open>run_bin h c\<close> is the exit code of a
  produced program and the files it creates. \<open>bash h cmd\<close> is the exit code and the
  decoded standard output of \<open>bash -c cmd\<close>.
\<close>

section \<open>The world\<close>

datatype cwd = ProjectDir | WorkspaceDir

record world =
  fs :: "(string \<times> fcontent) list"
  ws_dir :: bool
  cwd :: cwd
  gen :: "string list"
  out :: "string list"
  config_h :: "string option"
  atexit :: bool
  cleanups :: nat

text \<open>
  \<open>fs\<close> is an association list from file names to contents, kept without
  duplicate keys by \<open>AList.update\<close> and \<open>AList.delete\<close>; \<open>map_of (fs w)\<close> is the
  directory as a map and \<open>fs w = []\<close> says the directory is empty.
  \<open>cleanups\<close> counts the runs of the exit handler; it is observation only, no code reads
  it. \<open>out\<close> holds one entry per \<open>print\<close> call, with the \<open>end\<close> it was given.
\<close>

definition IS_MSYS2 :: "host \<Rightarrow> bool" where
  "IS_MSYS2 h =
     (case msystem h of
        None \<Rightarrow> False
      | Some m \<Rightarrow> m \<in> {''MSYS'', ''MINGW64'', ''MINGW32'', ''UCRT64'', ''UCRT32''})"

section \<open>Python control flow as an exception-state monad\<close>

type_synonym 'a pyfun = "world \<Rightarrow> (abrupt + 'a) \<times> world"

definition py_ret :: "'a \<Rightarrow> 'a pyfun" where
  "py_ret x w = (Inr x, w)"

definition py_raise :: "abrupt \<Rightarrow> 'a pyfun" where
  "py_raise e w = (Inl e, w)"

definition py_bind :: "'a pyfun \<Rightarrow> ('a \<Rightarrow> 'b pyfun) \<Rightarrow> 'b pyfun" where
  "py_bind m f w = (case m w of (Inl e, w') \<Rightarrow> (Inl e, w') | (Inr x, w') \<Rightarrow> f x w')"

definition py_seq :: "unit pyfun \<Rightarrow> 'b pyfun \<Rightarrow> 'b pyfun" where
  "py_seq m k = py_bind m (\<lambda>_. k)"

definition py_catch :: "'a pyfun \<Rightarrow> (abrupt \<Rightarrow> 'a pyfun) \<Rightarrow> 'a pyfun" where
  "py_catch m handler w = (case m w of (Inl e, w') \<Rightarrow> handler e w' | r \<Rightarrow> r)"

definition py_modify :: "(world \<Rightarrow> world) \<Rightarrow> unit pyfun" where
  "py_modify f w = (Inr (), f w)"

text \<open>\<open>try: m except: pass\<close>\<close>

definition py_try_pass :: "unit pyfun \<Rightarrow> unit pyfun" where
  "py_try_pass m = py_catch m (\<lambda>_. py_ret ())"

text \<open>\<open>exit(n)\<close> raises \<open>SystemExit(n)\<close>.\<close>

definition py_exit :: "int \<Rightarrow> 'a pyfun" where
  "py_exit n = py_raise (SysExit n)"

section \<open>Primitive effects\<close>

definition py_print :: "string \<Rightarrow> unit pyfun" where
  "py_print s = py_modify (\<lambda>w. w\<lparr>out := out w @ [s @ [nl]]\<rparr>)"

definition py_print_noeol :: "string \<Rightarrow> unit pyfun" where
  "py_print_noeol s = py_modify (\<lambda>w. w\<lparr>out := out w @ [s]\<rparr>)"

definition os_remove :: "string \<Rightarrow> unit pyfun" where
  "os_remove p w =
     (if map_of (fs w) p = None then (Inl (Raised FileNotFound), w)
      else (Inr (), w\<lparr>fs := AList.delete p (fs w)\<rparr>))"

definition write_source :: "host \<Rightarrow> string \<Rightarrow> string \<Rightarrow> unit pyfun" where
  "write_source h p txt w =
     (if ws_writable h then (Inr (), w\<lparr>fs := AList.update p (Source txt) (fs w)\<rparr>)
      else (Inl (Raised WriteFailed), w))"

definition gen_append :: "string \<Rightarrow> unit pyfun" where
  "gen_append line = py_modify (\<lambda>w. w\<lparr>gen := gen w @ [line]\<rparr>)"

text \<open>\<open>if head: ...\<close>: \<open>None\<close> and the empty string are false.\<close>

definition if_head :: "string option \<Rightarrow> (string \<Rightarrow> unit pyfun) \<Rightarrow> unit pyfun" where
  "if_head head f = (case head of Some n \<Rightarrow> if n \<noteq> [] then f n else py_ret () | None \<Rightarrow> py_ret ())"

text \<open>
  The file a compile produces for \<open>-o p\<close>: on an MSYS2/MinGW host the compiler
  appends \<^verbatim>\<open>.exe\<close> to a name without that extension (the naming convention the
  script's \<open>IS_MSYS2\<close> test is about).
\<close>

definition gcc_output :: "host \<Rightarrow> string \<Rightarrow> string" where
  "gcc_output h p = (if IS_MSYS2 h \<and> \<not> suffix ''.exe'' p then p @ ''.exe'' else p)"

text \<open>
  \<open>subprocess.run(["gcc", ...])\<close> with \<^verbatim>\<open>./test.c\<close> as input: a missing input is a
  failed compile; a successful compile creates the output named after \<open>-o\<close>.
\<close>

definition run_gcc :: "host \<Rightarrow> string list \<Rightarrow> string \<Rightarrow> (int \<times> string option) pyfun" where
  "run_gcc h args outp w =
     (case map_of (fs w) ''./test.c'' of
        Some (Source src) \<Rightarrow>
          (case gcc h args src of
             None \<Rightarrow> (Inl (Raised SpawnFailed), w)
           | Some (rc, err) \<Rightarrow>
               (Inr (rc, err),
                if rc = 0 then w\<lparr>fs := AList.update (gcc_output h outp) (Binary src args) (fs w)\<rparr> else w))
      | _ \<Rightarrow> (Inr (1, Some ''no input file''), w))"

text \<open>\<open>subprocess.run(path)\<close> of a produced program: the files it writes appear.\<close>

definition run_exe :: "host \<Rightarrow> string \<Rightarrow> int pyfun" where
  "run_exe h p w =
     (case map_of (fs w) p of
        None \<Rightarrow> (Inl (Raised FileNotFound), w)
      | Some c \<Rightarrow>
          (case run_bin h c of
             None \<Rightarrow> (Inl (Raised SpawnFailed), w)
           | Some (rc, created) \<Rightarrow>
               (Inr rc, w\<lparr>fs := fold (\<lambda>q al. AList.update q Data al) created (fs w)\<rparr>)))"

section \<open>Frame conditions\<close>

text \<open>
  \<open>keeps f m\<close>: running \<open>m\<close> never changes the observation \<open>f\<close> of the world.
  \<open>process_fields\<close> is what no probe touches: the generated header, the atexit
  registry, the handler count, and the existence and use of the workspace directory.
\<close>

definition keeps :: "(world \<Rightarrow> 'b) \<Rightarrow> 'a pyfun \<Rightarrow> bool" where
  "keeps f m \<longleftrightarrow> (\<forall>w. f (snd (m w)) = f w)"

definition process_fields :: "world \<Rightarrow> string option \<times> bool \<times> nat \<times> bool \<times> cwd" where
  "process_fields w = (config_h w, atexit w, cleanups w, ws_dir w, cwd w)"

section \<open>Evaluation rules\<close>

text \<open>The monad and the primitive effects unfold by \<open>simp add: world_simps\<close>.\<close>

declare py_ret_def [world_simps] py_raise_def [world_simps] py_bind_def [world_simps]
  py_seq_def [world_simps] py_catch_def [world_simps] py_modify_def [world_simps]
  py_try_pass_def [world_simps] py_exit_def [world_simps] py_print_def [world_simps]
  py_print_noeol_def [world_simps] os_remove_def [world_simps] write_source_def [world_simps]
  gen_append_def [world_simps] if_head_def [world_simps] run_gcc_def [world_simps]
  run_exe_def [world_simps] update_conv' [world_simps] delete_conv' [world_simps]

text \<open>
  \<open>try: os.remove(p) except: pass\<close> always ends with \<open>p\<close> gone: a missing file
  raises, is ignored, and leaves a table without \<open>p\<close> unchanged.
\<close>

lemma try_remove:
  "py_try_pass (os_remove p) = py_modify (\<lambda>w. w\<lparr>fs := AList.delete p (fs w)\<rparr>)"
proof
  fix w
  show "py_try_pass (os_remove p) w = py_modify (\<lambda>w. w\<lparr>fs := AList.delete p (fs w)\<rparr>) w"
  proof (cases "map_of (fs w) p")
    case None
    then have "AList.delete p (fs w) = fs w"
      by (simp add: map_of_eq_None_iff)
    with None show ?thesis by (simp add: py_try_pass_def py_catch_def os_remove_def py_ret_def py_modify_def)
  qed (simp add: py_try_pass_def py_catch_def os_remove_def py_modify_def)
qed

named_theorems keeps_intros "composition rules and primitive instances of keeps"

lemma keeps_ret [keeps_intros]: "keeps f (py_ret x)"
  and keeps_raise [keeps_intros]: "keeps f (py_raise e)"
  and keeps_exit [keeps_intros]: "keeps f (py_exit n)"
  by (simp_all add: keeps_def py_ret_def py_raise_def py_exit_def)

lemma keeps_bind [keeps_intros]:
  assumes "keeps f m" "\<And>x. keeps f (k x)"
  shows "keeps f (py_bind m k)"
  unfolding keeps_def
proof
  fix w
  obtain r w1 where mw: "m w = (r, w1)" by (cases "m w")
  have "f w1 = f w" using assms(1) mw unfolding keeps_def by (metis snd_conv)
  then show "f (snd (py_bind m k w)) = f w"
    using assms(2) mw unfolding keeps_def py_bind_def by (cases r) auto
qed

lemma keeps_seq [keeps_intros]: "keeps f m \<Longrightarrow> keeps f k \<Longrightarrow> keeps f (py_seq m k)"
  by (simp add: py_seq_def keeps_bind)

lemma keeps_catch [keeps_intros]:
  assumes "keeps f m" "\<And>e. keeps f (g e)"
  shows "keeps f (py_catch m g)"
  unfolding keeps_def
proof
  fix w
  obtain r w1 where mw: "m w = (r, w1)" by (cases "m w")
  have "f w1 = f w" using assms(1) mw unfolding keeps_def by (metis snd_conv)
  then show "f (snd (py_catch m g w)) = f w"
    using assms(2) mw unfolding keeps_def py_catch_def by (cases r) auto
qed

lemma keeps_try_pass [keeps_intros]: "keeps f m \<Longrightarrow> keeps f (py_try_pass m)"
  by (simp add: py_try_pass_def keeps_catch keeps_ret)

lemma keeps_if [keeps_intros]: "keeps f a \<Longrightarrow> keeps f b \<Longrightarrow> keeps f (if c then a else b)"
  by simp

lemma keeps_case_prod [keeps_intros]: "(\<And>a b. keeps f (g a b)) \<Longrightarrow> keeps f (case p of (a, b) \<Rightarrow> g a b)"
  by (cases p) simp

lemma keeps_case_option [keeps_intros]:
  "keeps f a \<Longrightarrow> (\<And>x. keeps f (g x)) \<Longrightarrow> keeps f (case opt of None \<Rightarrow> a | Some x \<Rightarrow> g x)"
  by (cases opt) simp_all

lemma keeps_case_abrupt [keeps_intros]:
  "(\<And>n. keeps f (a n)) \<Longrightarrow> (\<And>x. keeps f (b x)) \<Longrightarrow> keeps f (case e of SysExit n \<Rightarrow> a n | Raised x \<Rightarrow> b x)"
  by (cases e) simp_all

lemma keeps_if_head [keeps_intros]: "(\<And>n. keeps f (g n)) \<Longrightarrow> keeps f (if_head head g)"
  by (simp add: if_head_def keeps_ret split: option.split)

lemma keeps_process_prims [keeps_intros]:
  "keeps process_fields (py_print s)" "keeps process_fields (py_print_noeol s)"
  "keeps process_fields (gen_append l)" "keeps process_fields (os_remove p)"
  "keeps process_fields (write_source h p t)" "keeps process_fields (run_gcc h args outp)"
  "keeps process_fields (run_exe h p)"
  by (auto simp: keeps_def process_fields_def world_simps split: option.split fcontent.split prod.split)

lemma keeps_gen_prims [keeps_intros]:
  "keeps gen (py_print s)" "keeps gen (py_print_noeol s)" "keeps gen (os_remove p)"
  "keeps gen (write_source h p t)" "keeps gen (run_gcc h args outp)" "keeps gen (run_exe h p)"
  by (auto simp: keeps_def world_simps split: option.split fcontent.split prod.split)

lemma keepsD: "keeps f m \<Longrightarrow> f (snd (m w)) = f w"
  by (simp add: keeps_def)

lemma py_seq_Inr: "m w = (Inr u, w') \<Longrightarrow> py_seq m k w = k w'"
  and py_seq_Inl: "m w = (Inl e, w') \<Longrightarrow> py_seq m k w = (Inl e, w')"
  by (simp_all add: py_seq_def py_bind_def)

lemma dom_map_of_delete: "dom (map_of (AList.delete k al)) = dom (map_of al) - {k}"
  by (auto simp: delete_conv' dom_def)

lemma dom_map_of_update: "dom (map_of (AList.update k v al)) = insert k (dom (map_of al))"
  by (simp add: update_conv' dom_def) auto

end
