(* ===== verification/MacroBuffer.thy ===== *)
theory MacroBuffer
  imports Host
begin

text \<open>
  MacroBuffer and HeaderEmitter. The source keeps the buffer as the global list
  \<open>GEN\<close> of rendered lines (\<^verbatim>\<open>src/configure.py\<close> line 10), appends to it in the
  probes and writes it out once at the end (lines 335--337). The abstract buffer is a
  list of macro definitions (\<open>macro_def\<close>: name, enabled flag, optional value); the
  concrete one is its rendering, line by line. The theory gives the three line shapes
  the probes append, the text of the generated header, and a reader of that text, and
  proves that the header determines the buffer: reading the emitted header gives back
  the abstract definitions (a print/parse round trip).
\<close>

section \<open>Macro definitions and their lines\<close>

datatype macro_def = MacroDef (mname: string) (menabled: bool) (mvalue: "string option")

text \<open>The lines the probes append (lines 84, 92, 141, 150, 162, 166).\<close>

definition enabled_line :: "string \<Rightarrow> string" where
  "enabled_line n = ''#define '' @ n"

definition disabled_line :: "string \<Rightarrow> string" where
  "disabled_line n = ''//#define '' @ n"

definition value_line :: "string \<Rightarrow> string \<Rightarrow> string" where
  "value_line n s = ''#define '' @ n @ '' '' @ py_repr (py_removesuffix s [nl])"

fun render_def :: "macro_def \<Rightarrow> string" where
  "render_def (MacroDef n True None) = enabled_line n"
| "render_def (MacroDef n True (Some v)) = ''#define '' @ n @ '' '' @ py_repr v"
| "render_def (MacroDef n False _) = disabled_line n"

text \<open>
  A definition the emitter can write unambiguously: a non-empty name without blank or
  line break, and no value on a disabled macro.
\<close>

definition wf_def :: "macro_def \<Rightarrow> bool" where
  "wf_def d \<longleftrightarrow> mname d \<noteq> [] \<and> CHR '' '' \<notin> set (mname d) \<and> nl \<notin> set (mname d)
                \<and> (menabled d \<or> mvalue d = None)"

section \<open>The generated header\<close>

definition header_preamble :: string where
  "header_preamble = ''/* THIS FILE IS AUTO-GENERATED, RUN CONFIGURE.PY TO GENERATE */''"

text \<open>\<open>preamble + "\n" + "\n".join(GEN) + "\n"\<close> (lines 336--337).\<close>

definition header_text :: "string list \<Rightarrow> string" where
  "header_text lines = header_preamble @ [nl] @ py_join [nl] lines @ [nl]"

section \<open>Reading a header back\<close>

definition parse_def :: "string \<Rightarrow> macro_def option" where
  "parse_def l =
     (if prefix ''//#define '' l then Some (MacroDef (drop 10 l) False None)
      else if prefix ''#define '' l then
        (let rest = drop 8 l; n = takeWhile (\<lambda>c. c \<noteq> CHR '' '') rest;
             v = dropWhile (\<lambda>c. c \<noteq> CHR '' '') rest
         in case v of
              [] \<Rightarrow> Some (MacroDef n True None)
            | _ # lit \<Rightarrow> map_option (\<lambda>s. MacroDef n True (Some s)) (py_unrepr lit))
      else None)"

fun parse_lines :: "string list \<Rightarrow> macro_def list option" where
  "parse_lines [] = Some []"
| "parse_lines (l # ls) =
     (case (parse_def l, parse_lines ls) of (Some d, Some ds) \<Rightarrow> Some (d # ds) | _ \<Rightarrow> None)"

text \<open>The emitted text ends in a line break, so its split ends in an empty piece.\<close>

definition parse_header :: "string \<Rightarrow> macro_def list option" where
  "parse_header txt =
     (case py_split nl txt of
        p # rest \<Rightarrow>
          if p = header_preamble \<and> rest \<noteq> [] \<and> last rest = [] then
            (if butlast rest = [[]] then Some [] else parse_lines (butlast rest))
          else None
      | [] \<Rightarrow> None)"

section \<open>Facts on rendering and reading\<close>

lemma parse_def_render:
  assumes "wf_def d"
  shows "parse_def (render_def d) = Some d"
proof (cases d)
  case (MacroDef n e v)
  with assms have n: "n \<noteq> []" "CHR '' '' \<notin> set n" and v: "e \<or> v = None"
    by (auto simp: wf_def_def)
  have tw: "takeWhile (\<lambda>c. c \<noteq> CHR '' '') (n @ xs) = n @ takeWhile (\<lambda>c. c \<noteq> CHR '' '') xs"
    and dw: "dropWhile (\<lambda>c. c \<noteq> CHR '' '') (n @ xs) = dropWhile (\<lambda>c. c \<noteq> CHR '' '') xs" for xs
    using n(2) by (induction n) auto
  have tw0: "takeWhile (\<lambda>c. c \<noteq> CHR '' '') n = n"
    and dw0: "dropWhile (\<lambda>c. c \<noteq> CHR '' '') n = []"
    using n(2) by (induction n) auto
  show ?thesis
  proof (cases e)
    case True
    then show ?thesis using MacroDef
      by (cases v) (auto simp: parse_def_def enabled_line_def tw dw tw0 dw0 py_unrepr_py_repr Let_def)
  next
    case False
    then show ?thesis using MacroDef v by (simp add: parse_def_def disabled_line_def)
  qed
qed

lemma one_line_render_def: "wf_def d \<Longrightarrow> one_line (render_def d)"
  by (cases d rule: render_def.cases)
     (auto simp: wf_def_def one_line_def enabled_line_def disabled_line_def
                 one_line_py_repr [unfolded one_line_def])

lemma parse_lines_render: "\<forall>d\<in>set ds. wf_def d \<Longrightarrow> parse_lines (map render_def ds) = Some ds"
  by (induction ds) (auto simp: parse_def_render)

lemma render_def_nonempty: "render_def d \<noteq> []"
  by (cases d rule: render_def.cases) (auto simp: enabled_line_def disabled_line_def)

lemma preamble_one_line: "one_line header_preamble"
  by (simp add: header_preamble_def)

lemma py_split_header_text:
  assumes "\<forall>l\<in>set ls. one_line l" "ls \<noteq> []"
  shows "py_split nl (header_text ls) = header_preamble # ls @ [[]]"
proof -
  have "py_split nl (py_join [nl] ls @ [nl]) = ls @ [[]]"
    using assms
    by (induction "[nl]" ls rule: py_join.induct)
       (auto simp: one_line_def py_split_append)
  then show ?thesis
    using preamble_one_line by (simp add: header_text_def one_line_def py_split_append)
qed

lemma parse_header_render:
  assumes "\<forall>d\<in>set ds. wf_def d"
  shows "parse_header (header_text (map render_def ds)) = Some ds"
proof (cases ds)
  case Nil
  then show ?thesis
    by (simp add: parse_header_def header_text_def header_preamble_def)
next
  case (Cons d ds')
  have "\<forall>l\<in>set (map render_def ds). one_line l"
    using assms one_line_render_def by auto
  with Cons have split: "py_split nl (header_text (map render_def ds)) = header_preamble # map render_def ds @ [[]]"
    by (simp add: py_split_header_text)
  have "map render_def ds \<noteq> [[]]"
    using Cons render_def_nonempty by simp
  with split assms show ?thesis
    by (simp add: parse_header_def parse_lines_render butlast_append)
qed

text \<open>
  C3. The header the emitter writes determines the buffer: for well-formed macro
  definitions, reading back the text written from their rendered lines gives the
  definitions, in order.
\<close>

theorem header_roundtrip:
  assumes "\<forall>d\<in>set ds. wf_def d"
  shows "parse_header (header_text (map render_def ds)) = Some ds"
  using assms by (rule parse_header_render)

end
