(* ===== verification/Probes.thy ===== *)
theory Probes
  imports MacroBuffer
begin

text \<open>
  The four probes of \<^verbatim>\<open>src/configure.py\<close> and the file helper they share with the
  script: \<open>check_bin\<close> (CommandAvailabilityChecker), \<open>check\<close> (CompileRunProbe),
  \<open>check_header\<close> (HeaderAvailabilityChecker), \<open>define_stdout\<close> (ShellCaptureProbe)
  and \<open>cleanup_file\<close>. Each is the whole Python function: its status lines, the source
  text it writes to \<^verbatim>\<open>./test.c\<close>, the command line it runs, the files it removes, the
  macro lines it appends to \<open>GEN\<close> and its \<open>exit(1)\<close> calls, with the \<open>try\<close> blocks
  as \<open>py_catch\<close>. The lemmas give the outcome of each probe on every branch.
\<close>

section \<open>Shared pieces\<close>

definition status_prefix :: "string \<Rightarrow> string \<Rightarrow> string" where
  "status_prefix label subject = label @ py_ljust subject 60 (CHR ''.'') @ ''...''"

definition print_decoded :: "string option \<Rightarrow> unit pyfun" where
  "print_decoded txt = (case txt of None \<Rightarrow> py_raise (Raised DecodeFailed) | Some s \<Rightarrow> py_print s)"

definition mandatory_failed :: "unit pyfun" where
  "mandatory_failed = py_print ''MANDATORY CHECK FAILED''"

section \<open>check_bin\<close>

definition check_bin :: "host \<Rightarrow> string \<Rightarrow> unit pyfun" where
  "check_bin h name =
     py_seq (py_print_noeol (status_prefix ''Checking binary: '' name))
       (if \<not> on_path h name then py_seq (py_print ''fail'') (py_exit 1)
        else py_print ''ok'')"

section \<open>check\<close>

definition check_source :: "string list \<Rightarrow> string \<Rightarrow> string" where
  "check_source headers example =
     py_join [nl] (map (\<lambda>i. ''#include <'' @ i @ ''>'') headers) @ [nl, nl] @
     ''int main(int argc, char **argv) {'' @ [nl] @ example @ [nl] @ ''}''"

definition exe_path :: "host \<Rightarrow> string" where
  "exe_path h = (if IS_MSYS2 h then ''./test.exe'' else ''./test'')"

definition link_flags :: "host \<Rightarrow> string list \<Rightarrow> string list" where
  "link_flags h link =
     (if link \<noteq> [] then
        (if IS_MSYS2 h then map (\<lambda>l. ''-l'' @ l) link else map (\<lambda>l. ''-l'' @ l) link)
      else [])"

definition check_args :: "host \<Rightarrow> string list \<Rightarrow> string list" where
  "check_args h link = [''gcc'', ''-xc'', ''./test.c'', ''-o'', exe_path h] @ link_flags h link"

text \<open>\<open>print\<close> of a list of \<open>str\<close> prints its \<open>repr\<close>.\<close>

definition py_repr_list :: "string list \<Rightarrow> string" where
  "py_repr_list xs = ''['' @ py_join '', '' (map py_repr xs) @ '']''"

text \<open>The body of the \<open>try\<close> of \<open>check\<close> (lines 41--93).\<close>

definition check_body :: "host \<Rightarrow> string option \<Rightarrow> string list \<Rightarrow> string \<Rightarrow> bool \<Rightarrow> string list \<Rightarrow> unit pyfun" where
  "check_body h head headers example mandatory link =
     py_seq (write_source h ''./test.c'' (check_source headers example))
     (py_seq (py_print (py_repr_list (check_args h link)))
     (py_bind (run_gcc h (check_args h link) (exe_path h)) (\<lambda>(rc, err).
        if rc \<noteq> 0 then
          py_seq (os_remove ''./test.c'')
          (py_seq (py_print ''gcc fail'')
          (if mandatory then py_seq mandatory_failed (py_seq (print_decoded err) (py_exit 1))
           else py_ret ()))
        else
          py_seq (os_remove ''./test.c'')
          (py_bind (run_exe h (exe_path h)) (\<lambda>ret.
             py_seq (py_try_pass (os_remove (exe_path h)))
             (if ret = 0 then
                py_seq (if_head head (\<lambda>n. gen_append (enabled_line n))) (py_print ''yes'')
              else
                py_seq (py_print ''no'')
                (if mandatory then py_seq mandatory_failed (py_exit 1)
                 else if_head head (\<lambda>n. gen_append (disabled_line n)))))))))"

text \<open>What runs after a caught exception (lines 99--111).\<close>

definition check_error :: "bool \<Rightarrow> unit pyfun" where
  "check_error mandatory =
     py_seq (py_try_pass (os_remove ''./test.c''))
     (py_seq (py_try_pass (py_seq (os_remove ''./test'') (os_remove ''./test.exe'')))
     (py_seq (py_print ''error'')
     (if mandatory then py_seq mandatory_failed (py_exit 1) else py_ret ())))"

definition check :: "host \<Rightarrow> string option \<Rightarrow> string \<Rightarrow> string list \<Rightarrow> string \<Rightarrow> bool \<Rightarrow> string list \<Rightarrow> unit pyfun" where
  "check h head feat headers example mandatory link =
     py_seq (py_print_noeol (status_prefix ''Checking with c: '' feat))
     (py_catch (check_body h head headers example mandatory link)
        (\<lambda>e. case e of SysExit n \<Rightarrow> py_raise (SysExit n) | Raised _ \<Rightarrow> check_error mandatory))"

section \<open>check_header\<close>

definition header_source :: "string \<Rightarrow> string" where
  "header_source header =
     ''#include <'' @ header @ ''>'' @ [nl, nl] @ ''int main(int argc, char **argv) {'' @ [nl] @
     ''return 0;'' @ [nl] @ ''}    ''"

definition header_args :: "string list" where
  "header_args = [''gcc'', ''./test.c'', ''-o'', ''./test'']"

definition check_header_body :: "host \<Rightarrow> string option \<Rightarrow> string \<Rightarrow> bool \<Rightarrow> unit pyfun" where
  "check_header_body h head header mandatory =
     py_seq (write_source h ''./test.c'' (header_source header))
     (py_bind (run_gcc h header_args ''./test'') (\<lambda>(rc, err).
        if rc \<noteq> 0 then
          py_seq (os_remove ''./test.c'')
          (py_seq (py_print (''can'' @ [squote] @ ''t import''))
          (py_seq (if_head head (\<lambda>n. gen_append (disabled_line n)))
          (if mandatory then py_seq mandatory_failed (py_seq (print_decoded err) (py_exit 1))
           else py_ret ())))
        else
          py_seq (py_print ''exists'') (if_head head (\<lambda>n. gen_append (enabled_line n)))))"

text \<open>The bare \<open>except:\<close> of line 151 catches every exception, \<open>SystemExit\<close> included.\<close>

definition check_header :: "host \<Rightarrow> string option \<Rightarrow> string \<Rightarrow> bool \<Rightarrow> unit pyfun" where
  "check_header h head header mandatory =
     py_seq (py_print_noeol (status_prefix ''Checking header: '' header))
     (py_catch (check_header_body h head header mandatory) (\<lambda>_. py_print ''fail''))"

section \<open>define_stdout\<close>

definition run_bash :: "host \<Rightarrow> string \<Rightarrow> (int \<times> string option) pyfun" where
  "run_bash h cmd w = (case bash h cmd of None \<Rightarrow> (Inl (Raised FileNotFound), w) | Some r \<Rightarrow> (Inr r, w))"

definition py_decode :: "string option \<Rightarrow> string pyfun" where
  "py_decode txt = (case txt of None \<Rightarrow> py_raise (Raised DecodeFailed) | Some s \<Rightarrow> py_ret s)"

text \<open>The \<open>mandatory\<close> parameter is accepted and never read.\<close>

definition define_stdout :: "host \<Rightarrow> string option \<Rightarrow> string \<Rightarrow> string \<Rightarrow> bool \<Rightarrow> unit pyfun" where
  "define_stdout h head name cmd mandatory =
     py_seq (py_print_noeol (status_prefix ''Defining       : '' name))
     (py_bind (run_bash h cmd) (\<lambda>(rc, outp).
        py_bind (py_decode outp) (\<lambda>s.
        py_seq (py_print s)
        (if rc = 0 then
           py_seq (if_head head (\<lambda>n. gen_append (value_line n s))) (py_print ''success'')
         else
           py_seq (if_head head (\<lambda>n. gen_append (disabled_line n))) (py_print ''fail'')))))"

section \<open>cleanup_file\<close>

definition cleanup_file :: "string \<Rightarrow> unit pyfun" where
  "cleanup_file path = py_try_pass (os_remove path)"

section \<open>What the probes promise\<close>

text \<open>
  The abstract contract of the compiling probes. A probe's \<open>verdict\<close> is what the host
  answers to it: a host-level fault (the source cannot be written, the compiler or the
  program cannot be started), a failed compile, or the exit code of the program. It
  is a function of the host alone, since every file the probe reads it has written
  itself. \<open>check_spec\<close> is the outcome the code gives each verdict (result and
  lines appended to \<open>GEN\<close>); \<open>check_header_spec\<close> the same for \<open>check_header\<close>.
\<close>

datatype verdict = HostFault | CompileFailed | Ran int

definition check_verdict :: "host \<Rightarrow> string list \<Rightarrow> string \<Rightarrow> string list \<Rightarrow> verdict" where
  "check_verdict h headers example link =
     (let src = check_source headers example; args = check_args h link in
      if \<not> ws_writable h then HostFault
      else case gcc h args src of
             None \<Rightarrow> HostFault
           | Some (rc, _) \<Rightarrow>
               if rc \<noteq> 0 then CompileFailed
               else case run_bin h (Binary src args) of
                      None \<Rightarrow> HostFault
                    | Some (r, _) \<Rightarrow> Ran r)"

text \<open>The line a probe named \<open>head\<close> appends, if its name is truthy.\<close>

definition head_lines :: "(string \<Rightarrow> string) \<Rightarrow> string option \<Rightarrow> string list" where
  "head_lines f head = (case head of Some n \<Rightarrow> if n \<noteq> [] then [f n] else [] | None \<Rightarrow> [])"

definition check_spec :: "verdict \<Rightarrow> string option \<Rightarrow> bool \<Rightarrow> (abrupt + unit) \<times> string list" where
  "check_spec v head mandatory =
     (case v of
        Ran r \<Rightarrow>
          if r = 0 then (Inr (), head_lines enabled_line head)
          else if mandatory then (Inl (SysExit 1), []) else (Inr (), head_lines disabled_line head)
      | _ \<Rightarrow> if mandatory then (Inl (SysExit 1), []) else (Inr (), []))"

definition header_verdict :: "host \<Rightarrow> string \<Rightarrow> verdict" where
  "header_verdict h header =
     (if \<not> ws_writable h then HostFault
      else case gcc h header_args (header_source header) of
             None \<Rightarrow> HostFault
           | Some (rc, _) \<Rightarrow> if rc \<noteq> 0 then CompileFailed else Ran 0)"

definition check_header_spec :: "verdict \<Rightarrow> string option \<Rightarrow> (abrupt + unit) \<times> string list" where
  "check_header_spec v head =
     (case v of
        HostFault \<Rightarrow> (Inr (), [])
      | CompileFailed \<Rightarrow> (Inr (), head_lines disabled_line head)
      | Ran _ \<Rightarrow> (Inr (), head_lines enabled_line head))"

text \<open>The files the program of a \<open>check\<close> writes when it runs.\<close>

definition check_creates :: "host \<Rightarrow> string list \<Rightarrow> string \<Rightarrow> string list \<Rightarrow> string set" where
  "check_creates h headers example link =
     (case run_bin h (Binary (check_source headers example) (check_args h link)) of
        None \<Rightarrow> {}
      | Some (_, c) \<Rightarrow> set c)"

section \<open>Outcome of each probe\<close>

lemma suffix_test_exe: "suffix ''.exe'' ''./test.exe''"
  unfolding suffix_def by (rule exI [of _ "''./test''"]) simp

lemma exe_path_ne: "exe_path h \<noteq> ''./test.c''" "gcc_output h (exe_path h) = exe_path h"
  by (auto simp: exe_path_def gcc_output_def suffix_test_exe)

lemma check_error_outcome:
  "fst (check_error m w) = (if m then Inl (SysExit 1) else Inr ()) \<and> gen (snd (check_error m w)) = gen w"
  by (simp add: check_error_def mandatory_failed_def world_simps split: prod.split)

lemma check_host_cases:
  fixes h :: host and headers :: "string list" and example :: string and link :: "string list"
  defines "src \<equiv> check_source headers example" and "args \<equiv> check_args h link"
  obtains (write_fail) "\<not> ws_writable h"
  | (no_gcc) "ws_writable h" "gcc h args src = None"
  | (compile_fail) rc err where "ws_writable h" "gcc h args src = Some (rc, err)" "rc \<noteq> 0"
  | (no_run) err where "ws_writable h" "gcc h args src = Some (0, err)" "run_bin h (Binary src args) = None"
  | (ran) err r c where "ws_writable h" "gcc h args src = Some (0, err)"
      "run_bin h (Binary src args) = Some (r, c)"
proof (cases "ws_writable h")
  case W: True
  show ?thesis
  proof (cases "gcc h args src")
    case (Some g)
    then obtain rc err where g: "gcc h args src = Some (rc, err)" by (cases g) auto
    show ?thesis
    proof (cases "rc = 0")
      case True
      with W g show ?thesis using no_run ran by (cases "run_bin h (Binary src args)") auto
    qed (use W g compile_fail in blast)
  qed (use W no_gcc in blast)
qed (use write_fail in blast)

lemma dom_fold_data: "dom (map_of (fold (\<lambda>q al. AList.update q Data al) c f)) = dom (map_of f) \<union> set c"
  by (induction c arbitrary: f) (auto simp: update_conv')

lemma fold_data_apply:
  "map_of (fold (\<lambda>q al. AList.update q Data al) c f) p = (if p \<in> set c then Some Data else map_of f p)"
  by (induction c arbitrary: f) (auto simp: update_conv')

lemma check_result:
  "fst (check h head feat headers example mandatory link w)
     = fst (check_spec (check_verdict h headers example link) head mandatory) \<and>
   gen (snd (check h head feat headers example mandatory link w))
     = gen w @ snd (check_spec (check_verdict h headers example link) head mandatory)"
proof -
  note defs = check_def check_body_def check_verdict_def check_spec_def head_lines_def
    mandatory_failed_def print_decoded_def exe_path_ne Let_def
  show ?thesis
  proof (cases rule: check_host_cases [where h = h and headers = headers and example = example and link = link])
    case (compile_fail rc err)
    then show ?thesis using check_error_outcome
      by (cases err) (simp_all add: defs world_simps split: prod.split)
  next
    case (ran err r c)
    then show ?thesis by (simp add: defs world_simps split: option.split)
  qed (use check_error_outcome in \<open>simp_all add: defs world_simps split: prod.split\<close>)
qed

lemma check_header_outcome:
  "fst (check_header h head header mandatory w) = fst (check_header_spec (header_verdict h header) head) \<and>
   gen (snd (check_header h head header mandatory w)) = gen w @ snd (check_header_spec (header_verdict h header) head)"
proof (cases "ws_writable h")
  case False
  then show ?thesis
    by (simp add: check_header_def check_header_body_def header_verdict_def check_header_spec_def world_simps)
next
  case True
  show ?thesis
  proof (cases "gcc h header_args (header_source header)")
    case None
    with True show ?thesis
      by (simp add: check_header_def check_header_body_def header_verdict_def check_header_spec_def world_simps)
  next
    case (Some g)
    obtain rc err where g: "g = (rc, err)" by (cases g)
    with True Some show ?thesis
      by (cases err)
         (simp_all add: check_header_def check_header_body_def header_verdict_def check_header_spec_def
            head_lines_def mandatory_failed_def print_decoded_def world_simps split: option.split)
  qed
qed

lemma probes_keep_process [keeps_intros]:
  "keeps process_fields (check h head feat headers example mandatory link)"
  "keeps process_fields (check_header h head header mandatory)"
  "keeps process_fields (check_bin h name)"
  "keeps process_fields (define_stdout h head name cmd mandatory)"
  "keeps process_fields (cleanup_file p)"
  unfolding check_def check_body_def check_error_def check_header_def check_header_body_def
    check_bin_def define_stdout_def cleanup_file_def mandatory_failed_def print_decoded_def
  by (intro keeps_intros; simp add: keeps_def run_bash_def py_decode_def py_ret_def py_raise_def
      split: option.split)+
text \<open>
  C1. The outcome of \<open>check\<close> is fixed by the host's verdict on its program: a run
  exiting 0 returns and appends the enabled line of a named probe; a run exiting
  non-zero exits with status 1 if mandatory and otherwise appends the disabled line;
  a failed compile or a host fault exits with status 1 if mandatory and otherwise
  returns with nothing appended.
\<close>

theorem check_outcome:
  "fst (check h head feat headers example mandatory link w)
     = fst (check_spec (check_verdict h headers example link) head mandatory) \<and>
   gen (snd (check h head feat headers example mandatory link w))
     = gen w @ snd (check_spec (check_verdict h headers example link) head mandatory)"
  by (rule check_result)

text \<open>
  C2. A mandatory \<open>check_header\<close> whose header does not compile does not stop the
  run: the \<open>exit(1)\<close> it calls raises \<open>SystemExit\<close> inside the bare \<open>except:\<close>,
  which swallows it; the probe returns normally after appending the disabled line.
\<close>

theorem check_header_mandatory_continues:
  assumes "ws_writable h" "gcc h header_args (header_source header) = Some (rc, err)" "rc \<noteq> 0"
  shows "fst (check_header h head header True w) = Inr () \<and>
         gen (snd (check_header h head header True w)) = gen w @ head_lines disabled_line head"
  using assms check_header_outcome [of h head header True w]
  by (simp add: header_verdict_def check_header_spec_def)

lemma check_bin_result:
  "fst (check_bin h name w) = (if on_path h name then Inr () else Inl (SysExit 1)) \<and>
   gen (snd (check_bin h name w)) = gen w \<and> fs (snd (check_bin h name w)) = fs w"
  by (simp add: check_bin_def world_simps)

lemma define_stdout_result:
  "fst (define_stdout h head name cmd mandatory w) =
     (case bash h cmd of
        None \<Rightarrow> Inl (Raised FileNotFound)
      | Some (_, None) \<Rightarrow> Inl (Raised DecodeFailed)
      | Some (_, Some _) \<Rightarrow> Inr ()) \<and>
   gen (snd (define_stdout h head name cmd mandatory w)) =
     gen w @ (case bash h cmd of
                Some (rc, Some s) \<Rightarrow>
                  if rc = 0 then head_lines (\<lambda>n. value_line n s) head else head_lines disabled_line head
              | _ \<Rightarrow> [])"
  by (simp add: define_stdout_def run_bash_def py_decode_def head_lines_def world_simps
      split: option.split prod.split)

lemma check_fs_result:
  assumes "\<not> IS_MSYS2 h"
  shows "dom (map_of (fs (snd (check h head feat headers example mandatory link w))))
           \<subseteq> (dom (map_of (fs w)) - {''./test.c''}) \<union> check_creates h headers example link"
proof -
  have e: "exe_path h = ''./test''" "gcc_output h ''./test'' = ''./test''"
    using assms by (simp_all add: exe_path_def gcc_output_def)
  note defs = check_def check_body_def check_error_def check_creates_def mandatory_failed_def
    print_decoded_def e Let_def
  show ?thesis
  proof (cases rule: check_host_cases [where h = h and headers = headers and example = example and link = link])
    case (compile_fail rc err)
    then show ?thesis by (cases err) (auto simp: defs world_simps split: prod.split)
  next
    case (ran err r c)
    then show ?thesis
      by (cases head) (auto simp: defs world_simps dom_fold_data fold_data_apply split: prod.split)
  qed (auto simp: defs world_simps split: prod.split)
qed

lemma check_header_keys:
  assumes "\<not> IS_MSYS2 h"
  shows "dom (map_of (fs (snd (check_header h head header m w)))) \<subseteq> dom (map_of (fs w)) \<union> {''./test.c'', ''./test''}"
proof -
  have g: "gcc_output h ''./test'' = ''./test''" using assms by (simp add: gcc_output_def)
  note defs = check_header_def check_header_body_def mandatory_failed_def print_decoded_def g
    dom_map_of_update dom_map_of_delete
  show ?thesis
  proof (cases "ws_writable h")
    case True
    show ?thesis
    proof (cases "gcc h header_args (header_source header)")
      case (Some r)
      obtain rc err where r: "r = (rc, err)" by (cases r)
      with True Some show ?thesis
        by (cases err) (auto simp: defs world_simps split: option.split)
    qed (use True in \<open>auto simp: defs world_simps\<close>)
  qed (auto simp: defs world_simps)
qed

lemma define_stdout_fs: "fs (snd (define_stdout h head name cmd m w)) = fs w"
  by (simp add: define_stdout_def run_bash_def py_decode_def world_simps split: option.split prod.split)

text \<open>
  C4. \<open>check_bin\<close> returns if and only if the command is on the search path, and
  otherwise exits with status 1; it never touches the buffer or the files.
\<close>

theorem check_bin_outcome:
  "fst (check_bin h name w) = (if on_path h name then Inr () else Inl (SysExit 1)) \<and>
   gen (snd (check_bin h name w)) = gen w \<and> fs (snd (check_bin h name w)) = fs w"
  by (rule check_bin_result)

text \<open>
  C5. \<open>define_stdout\<close> appends the captured value (its trailing line break removed,
  rendered by \<open>repr\<close>) on exit status 0 and the disabled line otherwise; but a shell
  that cannot be started, or output that is not UTF-8, raises an exception that the
  function does not catch.
\<close>

theorem define_stdout_outcome:
  "fst (define_stdout h head name cmd mandatory w) =
     (case bash h cmd of
        None \<Rightarrow> Inl (Raised FileNotFound)
      | Some (_, None) \<Rightarrow> Inl (Raised DecodeFailed)
      | Some (_, Some _) \<Rightarrow> Inr ()) \<and>
   gen (snd (define_stdout h head name cmd mandatory w)) =
     gen w @ (case bash h cmd of
                Some (rc, Some s) \<Rightarrow>
                  if rc = 0 then head_lines (\<lambda>n. value_line n s) head else head_lines disabled_line head
              | _ \<Rightarrow> [])"
  by (rule define_stdout_result)

text \<open>
  C6. On a host that is not MSYS2, \<open>check\<close> leaves behind no file it made: after it,
  the scratch directory holds only files that were there before (less \<^verbatim>\<open>./test.c\<close>)
  and files the probe program itself wrote.
\<close>

theorem check_fs_clean:
  assumes "\<not> IS_MSYS2 h"
  shows "dom (map_of (fs (snd (check h head feat headers example mandatory link w))))
           \<subseteq> (dom (map_of (fs w)) - {''./test.c''}) \<union> check_creates h headers example link"
  using assms by (rule check_fs_result)

text \<open>
  C7. On an MSYS2 host, a \<open>check\<close> whose program compiles but cannot be started
  leaves \<^verbatim>\<open>./test.exe\<close> behind: the error path removes \<^verbatim>\<open>./test\<close> first, in the same
  \<open>try\<close>, and the failure of that removal skips the removal of \<^verbatim>\<open>./test.exe\<close>.
\<close>

theorem check_msys_leaves_exe:
  assumes "IS_MSYS2 h" "ws_writable h" "map_of (fs w) ''./test'' = None"
    and "gcc h (check_args h link) (check_source headers example) = Some (0, err)"
    and "run_bin h (Binary (check_source headers example) (check_args h link)) = None"
  shows "map_of (fs (snd (check h head feat headers example mandatory link w))) ''./test.exe''
           = Some (Binary (check_source headers example) (check_args h link))"
proof -
  have e: "exe_path h = ''./test.exe''" using assms(1) by (simp add: exe_path_def)
  show ?thesis using assms
    by (simp add: check_def check_body_def check_error_def mandatory_failed_def e
        gcc_output_def suffix_test_exe world_simps split: prod.split)
qed

text \<open>
  C15. A \<open>check_header\<close> whose program compiles leaves its source \<^verbatim>\<open>./test.c\<close> and
  the executable \<^verbatim>\<open>./test\<close> in the scratch directory: unlike \<open>check\<close>, it removes
  them only on the failure path.
\<close>

theorem check_header_leaves_artifacts:
  assumes "\<not> IS_MSYS2 h" "ws_writable h" "gcc h header_args (header_source header) = Some (0, err)"
  shows "map_of (fs (snd (check_header h head header m w))) ''./test.c'' = Some (Source (header_source header)) \<and>
         map_of (fs (snd (check_header h head header m w))) ''./test'' = Some (Binary (header_source header) header_args)"
proof -
  have g: "gcc_output h ''./test'' = ''./test''" using assms(1) by (simp add: gcc_output_def)
  show ?thesis using assms(2,3)
    by (simp add: check_header_def check_header_body_def g world_simps split: option.split)
qed

end
