(* ===== verification/Configure.thy ===== *)
theory Configure
  imports Workspace
begin

text \<open>
  The orchestration of \<^verbatim>\<open>src/configure.py\<close>: the script body (lines 205--339) as a
  list of operations (\<open>script_ops\<close>, with the source's arguments and C snippets
  verbatim), the runner that executes them in order and stops at the first abrupt
  completion (\<open>run_ops\<close>), the write of the generated header (lines 335--337) and the
  whole process (\<open>configure\<close>): a fresh interpreter whose module creates and enters
  the workspace, registers the exit handler, runs the script, writes the header and
  ends through \<open>process_exit\<close>.

  \<open>op_spec\<close> and \<open>run_spec\<close> are the abstract semantics: the outcome of each
  operation and the lines it contributes to \<open>GEN\<close> as a function of the host only.
  The refinement lemma shows that running the operations on any world gives exactly
  that outcome and appends exactly those lines, so the header of a run is determined by
  the host and the order of the probes.
\<close>

section \<open>The script\<close>

datatype op =
    CheckBin string
  | CheckHeader "string option" string bool
  | Check "string option" string "string list" string bool "string list"
  | DefineStdout "string option" string string bool
  | CleanupFile string

definition REQUIRED_HEADERS :: "string list" where
  "REQUIRED_HEADERS = [''limits.h'', ''stddef.h'', ''stdint.h'', ''stdio.h'', ''stdlib.h'', ''string.h'',
     ''unistd.h'', ''fcntl.h'', ''curl/curl.h'', ''curl/urlapi.h'']"

definition script_ops :: "op list" where
  \<open>script_ops = [
    CheckBin ''rm'',
    CheckBin ''cp'',
    CheckBin ''mkdir'',
    CheckBin ''touch'',
    CheckBin ''gcc''] @
  map (\<lambda>header. CheckHeader None header True) REQUIRED_HEADERS @
  [
    Check None ''can find filesystem functions''
      [''string.h'', ''stdlib.h'', ''stdio.h'']
      (py_join [nl] [''void *ptr_a = (void*)&fopen;'', ''if (ptr_a == NULL) return 1;'', ''void *ptr_b = (void*)&fclose;'', ''if (ptr_b == NULL) return 1;'', ''void *ptr_c = (void*)&fwrite;'', ''if (ptr_c == NULL) return 1;'', ''void *ptr_d = (void*)&fread;'', ''if (ptr_d == NULL) return 1;'', ''return 0;''])
      True [],
    Check None ''can do filesystem operations''
      [''string.h'', ''stdlib.h'', ''stdio.h'']
      (py_join [nl] [''char *temp_path = "./temp";'', ''FILE *f = fopen(temp_path, "w");'', ''if (f == NULL) return 1;'', ''char data[] = "This is an example bit of text";'', ''size_t s = fwrite(data, sizeof(data), 1, f);'', ''if (s != 1) return 1;'', ''fclose(f);'', ''f = fopen(temp_path, "r");'', ''char buf[sizeof(data)];'', ''s = fread(buf, sizeof(buf), 1, f);'', ''if (s != 1) return 1;'', ''for (int i = 0; i < sizeof(data); i += 1) {'', ''      if (data[i] != buf[i]) return 1;'', ''}'', ''fclose(f);'', ''return 0;''])
      True [],
    CleanupFile ''./temp'',
    Check (Some ''HAVE_FPRINTF_STDERR'') ''fprintf can be used for stderr''
      [''inttypes.h'', ''stdlib.h'', ''stdio.h'']
      (py_join [nl] [''int amount = fprintf(stderr, "Hello!");'', ''if (amount != sizeof("Hello")) return 1;'', ''return 0;''])
      True [],
    CleanupFile ''./temp'',
    Check None ''strlen exists and functions''
      [''stdlib.h'', ''string.h'']
      (py_join [nl] [''char test[] = "123456789";'', ''int len = strlen(test);'', ''if (len != sizeof(test) - 1) return 1;'', ''return 0;''])
      True [],
    Check None ''strcmp exists and functions''
      [''stdlib.h'', ''string.h'']
      (py_join [nl] [''if (0 != strcmp("FOO", "FOO")) return 1;'', ''return 0;''])
      True [],
    Check None ''memcpy exists and functions''
      [''stdlib.h'', ''string.h'']
      (py_join [nl] [''int a = 20;'', ''int b = 10;'', ''memcpy(&a, &b, sizeof(int));'', ''if (a != b) return 1;'', ''return 0;''])
      True [],
    Check None ''memset exists and functions''
      [''stdlib.h'', ''string.h'']
      (py_join [nl] [''unsigned char a[2] = { 1, 3 };'', ''memset(a, 12, 2);'', ''if (a[0] != 12 || a[1] != 12) return 1;'', ''return 0;''])
      True [],
    Check None ''malloc can be called''
      [''stdlib.h'', ''string.h'']
      (py_join [nl] [''unsigned char* data = malloc(sizeof(unsigned char)*512);'', ''for (unsigned char i = 0; i < 255; i += 1) {'', ''    memset(data, i, 512);'', ''    for (int b = 0; b < 512; b += 1) {'', ''        if (data[b] != (unsigned char)i) return 1;'', ''    }'', ''}'', ''free(data);'', ''return 0;''])
      True [],
    Check None ''strtoq can be used''
      [''inttypes.h'', ''stdlib.h'']
      (py_join [nl] [''char *test = "38";'', ''char *endptr;'', ''long res = strtoq(test, &endptr, 10);'', ''if (endptr != &test[2]) return 1;'', ''if (res != 38) return 2;'', ''return 0;''])
      False [],
    Check (Some ''HAVE_STRTOL'') ''strtol can be used''
      [''inttypes.h'', ''stdlib.h'']
      (py_join [nl] [''char *test = "38";'', ''char *endptr;'', ''long res = strtol(test, &endptr, 10);'', ''if (endptr != &test[2]) return 1;'', ''if (res != 38) return 2;'', ''return 0;''])
      True [],
    Check (Some ''HAVE_STRTOIMAX'') ''strtoimax can be used''
      [''inttypes.h'', ''string.h'']
      (py_join [nl] [''char *test = "38";'', ''char *endptr;'', ''intmax_t res = strtoimax(test, &endptr, 10);'', ''if (endptr != &test[2]) return 1;'', ''if (res != 38) return 2;'', ''return 0;''])
      False [],
    Check None ''Can link with curl''
      [''curl/curl.h'']
      (py_join [nl] [''char *ver = curl_version();'', ''printf(ver);'', ''return 0;''] @ [nl])
      True [''curl''],
    DefineStdout (Some ''COMPILER_ARCH'') ''architecture'' ''uname -m'' False]\<close>

fun exec_op :: "host \<Rightarrow> op \<Rightarrow> unit pyfun" where
  "exec_op h (CheckBin n) = check_bin h n"
| "exec_op h (CheckHeader hdn header m) = check_header h hdn header m"
| "exec_op h (Check hdn feat headers example m link) = check h hdn feat headers example m link"
| "exec_op h (DefineStdout hdn name cmd m) = define_stdout h hdn name cmd m"
| "exec_op h (CleanupFile p) = cleanup_file p"

fun run_ops :: "host \<Rightarrow> op list \<Rightarrow> unit pyfun" where
  "run_ops h [] = py_ret ()"
| "run_ops h (o1 # os) = py_seq (exec_op h o1) (run_ops h os)"

section \<open>Writing the header and the whole run\<close>

text \<open>\<open>open("../src/config.h", "w")\<close> and the write of lines 335--337.\<close>

definition write_header :: "host \<Rightarrow> unit pyfun" where
  "write_header h w =
     (if header_writable h then (Inr (), w\<lparr>config_h := Some (header_text (gen w))\<rparr>)
      else (Inl (Raised WriteFailed), w))"

definition module_main :: "host \<Rightarrow> unit pyfun" where
  "module_main h =
     py_seq (init_workspace h)
     (py_seq register_atexit
     (py_seq (run_ops h script_ops)
     (py_seq (write_header h)
     (py_print ''CONFIGURE COMPLETE! You should be ready to build''))))"

text \<open>
  A fresh interpreter: \<open>GEN = []\<close> (line 10), nothing printed, no exit handler, started
  in the project directory; the files on disk are those of the given world.
\<close>

definition start_process :: "world \<Rightarrow> world" where
  "start_process w = w\<lparr>gen := [], out := [], atexit := False, cleanups := 0, cwd := ProjectDir\<rparr>"

definition configure :: "host \<Rightarrow> world \<Rightarrow> int \<times> world" where
  "configure h w = (case module_main h (start_process w) of (r, w') \<Rightarrow> process_exit r w')"

section \<open>Abstract semantics of the script\<close>

fun op_spec :: "host \<Rightarrow> op \<Rightarrow> (abrupt + unit) \<times> string list" where
  "op_spec h (CheckBin n) = (if on_path h n then Inr () else Inl (SysExit 1), [])"
| "op_spec h (CheckHeader hdn header m) = check_header_spec (header_verdict h header) hdn"
| "op_spec h (Check hdn feat headers example m link) = check_spec (check_verdict h headers example link) hdn m"
| "op_spec h (DefineStdout hdn name cmd m) =
     (case bash h cmd of
        None \<Rightarrow> (Inl (Raised FileNotFound), [])
      | Some (_, None) \<Rightarrow> (Inl (Raised DecodeFailed), [])
      | Some (rc, Some s) \<Rightarrow>
          (Inr (), if rc = 0 then head_lines (\<lambda>n. value_line n s) hdn else head_lines disabled_line hdn))"
| "op_spec h (CleanupFile p) = (Inr (), [])"

fun run_spec :: "host \<Rightarrow> op list \<Rightarrow> (abrupt + unit) \<times> string list" where
  "run_spec h [] = (Inr (), [])"
| "run_spec h (o1 # os) =
     (case op_spec h o1 of
        (Inl e, ls) \<Rightarrow> (Inl e, ls)
      | (Inr _, ls) \<Rightarrow> (case run_spec h os of (r, ls') \<Rightarrow> (r, ls @ ls')))"

text \<open>
  The buffer contract of one operation: the line lists it may append when it returns
  normally. It reads only the operation's macro name and mandatory flag.
\<close>

fun op_lines :: "op \<Rightarrow> string list set" where
  "op_lines (CheckBin n) = {[]}"
| "op_lines (CheckHeader hdn header m) =
     {[], head_lines enabled_line hdn, head_lines disabled_line hdn}"
| "op_lines (Check hdn feat headers example m link) =
     (if m then {head_lines enabled_line hdn}
      else {[], head_lines enabled_line hdn, head_lines disabled_line hdn})"
| "op_lines (DefineStdout hdn name cmd m) =
     insert (head_lines disabled_line hdn) (range (\<lambda>s. head_lines (\<lambda>n. value_line n s) hdn))"
| "op_lines (CleanupFile p) = {[]}"

section \<open>The runner refines the abstract semantics\<close>

lemma cleanup_file_result:
  "fst (cleanup_file p w) = Inr () \<and> gen (snd (cleanup_file p w)) = gen w"
  by (simp add: cleanup_file_def try_remove py_modify_def)

lemma exec_op_refines:
  "fst (exec_op h o1 w) = fst (op_spec h o1) \<and> gen (snd (exec_op h o1 w)) = gen w @ snd (op_spec h o1)"
proof (cases o1)
  case (CheckBin n)
  then show ?thesis using check_bin_result [of h n w] by simp
next
  case (CheckHeader hdn header m)
  then show ?thesis using check_header_outcome [of h hdn header m w] by simp
next
  case (Check hdn feat headers example m link)
  then show ?thesis using check_result [of h hdn feat headers example m link w] by simp
next
  case (DefineStdout hdn name cmd m)
  then show ?thesis using define_stdout_result [of h hdn name cmd m w]
    by (simp split: option.split prod.split)
next
  case (CleanupFile p)
  then show ?thesis using cleanup_file_result [of p w] by simp
qed

lemma run_ops_refines:
  "fst (run_ops h os w) = fst (run_spec h os) \<and> gen (snd (run_ops h os w)) = gen w @ snd (run_spec h os)"
proof (induction os arbitrary: w)
  case Nil
  then show ?case by (simp add: py_ret_def)
next
  case (Cons o1 os)
  obtain r1 w1 where e: "exec_op h o1 w = (r1, w1)" by (cases "exec_op h o1 w")
  obtain s1 ls1 where sp: "op_spec h o1 = (s1, ls1)" by (cases "op_spec h o1")
  from exec_op_refines [of h o1 w] e sp
  have r1: "r1 = s1" and g1: "gen w1 = gen w @ ls1" by simp_all
  show ?case
  proof (cases s1)
    case (Inl e1)
    with e sp r1 g1 show ?thesis by (simp add: py_seq_def py_bind_def)
  next
    case (Inr u)
    obtain r2 ls2 where rs: "run_spec h os = (r2, ls2)" by (cases "run_spec h os")
    have "op_spec h o1 = (Inr (), ls1)" using Inr sp by simp
    with e r1 g1 rs Inr Cons.IH [of w1] show ?thesis
      by (simp add: py_seq_def py_bind_def)
  qed
qed

lemma exec_op_keeps [keeps_intros]: "keeps process_fields (exec_op h o1)"
  by (cases o1) (simp_all add: probes_keep_process)

lemma run_ops_keeps [keeps_intros]: "keeps process_fields (run_ops h os)"
  by (induction os) (simp_all add: keeps_intros)

lemma exec_op_known:
  assumes "\<not> IS_MSYS2 h" "\<forall>c r cr. run_bin h c = Some (r, cr) \<longrightarrow> set cr \<subseteq> known_artifacts"
    and "dom (map_of (fs w)) \<subseteq> known_artifacts"
  shows "dom (map_of (fs (snd (exec_op h o1 w)))) \<subseteq> known_artifacts"
proof (cases o1)
  case (CheckBin n)
  then show ?thesis using assms(3) check_bin_result [of h n w] by simp
next
  case (CheckHeader hdn header m)
  have "dom (map_of (fs w)) \<union> {''./test.c'', ''./test''} \<subseteq> known_artifacts"
    using assms(3) by (simp add: known_artifacts_def)
  with CheckHeader show ?thesis using check_header_keys [OF assms(1), of hdn header m w]
    by (simp only: exec_op.simps)
next
  case (Check hdn feat headers example m link)
  have "check_creates h headers example link \<subseteq> known_artifacts"
    using assms(2) by (auto simp: check_creates_def split: option.split)
  then have "dom (map_of (fs w)) - {''./test.c''} \<union> check_creates h headers example link \<subseteq> known_artifacts"
    using assms(3) by blast
  with Check show ?thesis using check_fs_result [OF assms(1), of hdn feat headers example m link w]
    by (simp only: exec_op.simps)
next
  case (DefineStdout hdn name cmd m)
  then show ?thesis using assms(3) by (simp add: define_stdout_fs)
next
  case (CleanupFile p)
  then show ?thesis using assms(3)
    by (auto simp: cleanup_file_def try_remove py_modify_def dom_map_of_delete)
qed

lemma run_ops_known:
  assumes "\<not> IS_MSYS2 h" "\<forall>c r cr. run_bin h c = Some (r, cr) \<longrightarrow> set cr \<subseteq> known_artifacts"
  shows "dom (map_of (fs w)) \<subseteq> known_artifacts \<Longrightarrow> dom (map_of (fs (snd (run_ops h os w)))) \<subseteq> known_artifacts"
proof (induction os arbitrary: w)
  case Nil
  then show ?case by (simp add: py_ret_def)
next
  case (Cons o1 os)
  obtain r1 w1 where e: "exec_op h o1 w = (r1, w1)" by (cases "exec_op h o1 w")
  have "dom (map_of (fs w1)) \<subseteq> known_artifacts"
    using exec_op_known [OF assms Cons.prems, of o1] e by simp
  with e Cons.IH [of w1] show ?case
    by (cases r1) (simp_all add: py_seq_def py_bind_def)
qed

section \<open>The whole run\<close>

lemma init_workspace_eq:
  "init_workspace h w =
     (if ws_dir w then (Inr (), w\<lparr>cwd := WorkspaceDir\<rparr>)
      else if ws_enterable h then (Inr (), w\<lparr>ws_dir := True, fs := [], cwd := WorkspaceDir\<rparr>)
      else (Inl (Raised FileNotFound), w))"
  by (simp add: init_workspace_def ws_mkdir_def ws_chdir_def world_simps)

lemma process_exit_eq:
  "process_exit r w = (exit_code r, if atexit w then snd (try_cleanup w) else w)"
  by (simp add: process_exit_def)

lemma init_workspace_ok:
  assumes "ws_dir w \<or> ws_enterable h"
  obtains w0 where "init_workspace h (start_process w) = (Inr (), w0)"
    "gen w0 = []" "config_h w0 = config_h w" "cleanups w0 = 0" "atexit w0 = False"
    "ws_dir w0" "cwd w0 = WorkspaceDir" "fs w0 = (if ws_dir w then fs w else [])"
proof (cases "ws_dir w")
  case True
  then show ?thesis using that by (simp add: init_workspace_eq start_process_def)
next
  case False
  then show ?thesis using that assms by (simp add: init_workspace_eq start_process_def)
qed

lemma module_main_after_init:
  assumes "init_workspace h (start_process w) = (Inr (), w0)"
  shows "module_main h (start_process w) =
    py_seq (run_ops h script_ops) (py_seq (write_header h)
      (py_print ''CONFIGURE COMPLETE! You should be ready to build'')) (w0\<lparr>atexit := True\<rparr>)"
proof -
  have a: "register_atexit w0 = (Inr (), w0\<lparr>atexit := True\<rparr>)"
    by (simp add: register_atexit_def py_modify_def)
  show ?thesis unfolding module_main_def
    by (simp add: py_seq_Inr [where m = "init_workspace h", OF assms] py_seq_Inr [where m = register_atexit, OF a])
qed

lemma finish_keeps_ws:
  "keeps (\<lambda>w. (fs w, ws_dir w, cwd w, atexit w))
     (py_seq (write_header h) (py_print ''CONFIGURE COMPLETE! You should be ready to build''))"
  by (simp add: keeps_def write_header_def world_simps)

lemma module_main_ws:
  assumes "init_workspace h (start_process w) = (Inr (), w0)"
  obtains w3 where "(fs w3, ws_dir w3, cwd w3, atexit w3) = (fs (snd (module_main h (start_process w))),
      ws_dir (snd (module_main h (start_process w))), cwd (snd (module_main h (start_process w))),
      atexit (snd (module_main h (start_process w))))"
    "w3 = snd (run_ops h script_ops (w0\<lparr>atexit := True\<rparr>))"
proof -
  obtain r w3 where run: "run_ops h script_ops (w0\<lparr>atexit := True\<rparr>) = (r, w3)"
    by (cases "run_ops h script_ops (w0\<lparr>atexit := True\<rparr>)")
  show ?thesis
  proof (cases r)
    case (Inl e)
    then show ?thesis using that run module_main_after_init [OF assms] by (simp add: py_seq_Inl)
  next
    case (Inr u)
    then show ?thesis using that run module_main_after_init [OF assms] keepsD [OF finish_keeps_ws, of h w3]
      by (simp add: py_seq_Inr)
  qed
qed

lemma configure_result:
  "fst (configure h w) =
     (if \<not> (ws_dir w \<or> ws_enterable h) then 1
      else case fst (run_spec h script_ops) of
             Inl e \<Rightarrow> exit_code (Inl e)
           | Inr _ \<Rightarrow> if header_writable h then 0 else 1) \<and>
   config_h (snd (configure h w)) =
     (if (ws_dir w \<or> ws_enterable h) \<and> fst (run_spec h script_ops) = Inr () \<and> header_writable h
      then Some (header_text (snd (run_spec h script_ops))) else config_h w) \<and>
   cleanups (snd (configure h w)) = (if ws_dir w \<or> ws_enterable h then 1 else 0)"
proof (cases "ws_dir w \<or> ws_enterable h")
  case False
  then show ?thesis
    by (simp add: configure_def module_main_def init_workspace_eq start_process_def process_exit_def
        exit_code_def py_seq_def py_bind_def)
next
  case True
  obtain w0 where i: "init_workspace h (start_process w) = (Inr (), w0)"
    and w0: "gen w0 = []" "config_h w0 = config_h w" "cleanups w0 = 0"
    using init_workspace_ok [OF True] by metis
  define w1 where "w1 = w0\<lparr>atexit := True\<rparr>"
  obtain r w3 where run: "run_ops h script_ops w1 = (r, w3)" by (cases "run_ops h script_ops w1")
  have r: "r = fst (run_spec h script_ops)" and g3: "gen w3 = snd (run_spec h script_ops)"
    using run_ops_refines [of h script_ops w1] run w0 by (simp_all add: w1_def)
  have "process_fields w3 = process_fields w1"
    using keepsD [OF run_ops_keeps [of h script_ops], of w1] run by simp
  then have f3: "config_h w3 = config_h w" "atexit w3" "cleanups w3 = 0"
    using w0 by (auto simp: process_fields_def w1_def)
  have mm: "module_main h (start_process w) =
      py_seq (run_ops h script_ops) (py_seq (write_header h)
        (py_print ''CONFIGURE COMPLETE! You should be ready to build'')) w1"
    using module_main_after_init [OF i] by (simp add: w1_def)
  show ?thesis
  proof (cases r)
    case (Inl e)
    then have "module_main h (start_process w) = (Inl e, w3)"
      using mm run by (simp add: py_seq_Inl)
    with Inl r f3 True show ?thesis
      using try_cleanup_outcome [of w3] by (simp add: configure_def process_exit_def)
  next
    case (Inr u)
    show ?thesis
    proof (cases "header_writable h")
      case hw: True
      define w4 where "w4 = w3\<lparr>config_h := Some (header_text (gen w3))\<rparr>"
      have "module_main h (start_process w) =
          py_print ''CONFIGURE COMPLETE! You should be ready to build'' w4"
        using mm run Inr hw by (simp add: py_seq_Inr write_header_def w4_def)
      then have "configure h w = process_exit (Inr ())
          (w4\<lparr>out := out w4 @ [''CONFIGURE COMPLETE! You should be ready to build'' @ [nl]]\<rparr>)"
        by (simp add: configure_def py_print_def py_modify_def)
      with Inr r hw f3 g3 True show ?thesis
        using try_cleanup_outcome [of "w4\<lparr>out := out w4 @ [''CONFIGURE COMPLETE! You should be ready to build'' @ [nl]]\<rparr>"]
        by (simp add: process_exit_def exit_code_def w4_def)
    next
      case hw: False
      have "module_main h (start_process w) = (Inl (Raised WriteFailed), w3)"
        using mm run Inr hw by (simp add: py_seq_Inr py_seq_Inl write_header_def)
      with Inr r hw f3 True show ?thesis
        using try_cleanup_outcome [of w3] by (simp add: configure_def process_exit_def exit_code_def)
    qed
  qed
qed

section \<open>Facts on the abstract semantics\<close>

lemma op_spec_abrupt:
  "fst (op_spec h o1) = Inr () \<or> fst (op_spec h o1) = Inl (SysExit 1) \<or> (\<exists>f. fst (op_spec h o1) = Inl (Raised f))"
  by (cases o1) (auto simp: check_spec_def check_header_spec_def split: verdict.split option.split)

lemma run_spec_abrupt:
  "fst (run_spec h os) = Inr () \<or> fst (run_spec h os) = Inl (SysExit 1) \<or> (\<exists>f. fst (run_spec h os) = Inl (Raised f))"
proof (induction os)
  case (Cons o1 os)
  then show ?case using op_spec_abrupt [of h o1]
    by (auto split: prod.split sum.split)
qed simp

lemma run_spec_stops:
  "o1 \<in> set os \<Longrightarrow> fst (op_spec h o1) \<noteq> Inr () \<Longrightarrow> fst (run_spec h os) \<noteq> Inr ()"
  by (induction os) (auto split: prod.split sum.split)

lemma run_spec_ok:
  "fst (run_spec h os) = Inr () \<Longrightarrow>
     (\<forall>o1\<in>set os. fst (op_spec h o1) = Inr ()) \<and> snd (run_spec h os) = concat (map (\<lambda>o1. snd (op_spec h o1)) os)"
  by (induction os) (auto split: prod.split sum.split)

lemma exit_code_abrupt: "fst (run_spec h os) \<noteq> Inr () \<Longrightarrow> exit_code (fst (run_spec h os)) = 1"
  using run_spec_abrupt [of h os] by (auto simp: exit_code_def)

lemma spec_lines_unnamed [simp]:
  "snd (check_spec v None m) = []" "snd (check_header_spec v None) = []"
  by (simp_all add: check_spec_def check_header_spec_def head_lines_def split: verdict.split)

lemma check_spec_mandatory_named:
  "fst (check_spec v (Some n) True) = Inr () \<Longrightarrow> n \<noteq> [] \<Longrightarrow> snd (check_spec v (Some n) True) = [enabled_line n]"
  by (auto simp: check_spec_def head_lines_def split: verdict.splits if_splits)

lemma check_spec_optional_named:
  "n \<noteq> [] \<Longrightarrow> snd (check_spec v (Some n) False) \<in> {[], [enabled_line n], [disabled_line n]}"
  by (auto simp: check_spec_def head_lines_def split: verdict.split)

lemma op_spec_lines: "fst (op_spec h o1) = Inr () \<Longrightarrow> snd (op_spec h o1) \<in> op_lines o1"
  by (cases o1) (auto simp: check_spec_def check_header_spec_def split: verdict.splits option.splits if_splits)

lemma script_lines_shape:
  assumes "\<forall>o1\<in>set script_ops. g o1 \<in> op_lines o1"
  shows "\<exists>imax arch.
    concat (map g script_ops) =
      [enabled_line ''HAVE_FPRINTF_STDERR'', enabled_line ''HAVE_STRTOL''] @ imax @ [arch] \<and>
    imax \<in> {[], [enabled_line ''HAVE_STRTOIMAX''], [disabled_line ''HAVE_STRTOIMAX'']} \<and>
    (arch = disabled_line ''COMPILER_ARCH'' \<or> (\<exists>s. arch = value_line ''COMPILER_ARCH'' s))"
  using assms by (simp add: script_ops_def REQUIRED_HEADERS_def head_lines_def) blast

section \<open>Properties of a run\<close>

text \<open>
  C8. A run that exits with status 0 has written \<^verbatim>\<open>../src/config.h\<close> with the
  preamble and the lines the probes contributed; a run with any other status leaves
  the header file as it was.
\<close>

theorem configure_header_iff_success:
  "(fst (configure h w) = 0 \<longrightarrow> config_h (snd (configure h w)) = Some (header_text (snd (run_spec h script_ops)))) \<and>
   (fst (configure h w) \<noteq> 0 \<longrightarrow> config_h (snd (configure h w)) = config_h w)"
  using configure_result [of h w] exit_code_abrupt [of h script_ops]
  by (auto split: sum.splits if_splits)

text \<open>
  C9. Every run of the script ends with exit status 0 or 1.
\<close>

theorem configure_exit_status: "fst (configure h w) = 0 \<or> fst (configure h w) = 1"
  using configure_result [of h w] exit_code_abrupt [of h script_ops]
  by (auto split: sum.splits)

text \<open>
  C10. The outcome of a run depends on the host only: two runs against the same host,
  from disk states where the workspace can equally be entered, end with the same
  status and, on success, write the same header (the determinism of section 8).
\<close>

theorem configure_deterministic:
  assumes "(ws_dir w1 \<or> ws_enterable h) = (ws_dir w2 \<or> ws_enterable h)"
  shows "fst (configure h w1) = fst (configure h w2) \<and>
         (fst (configure h w1) = 0 \<longrightarrow> config_h (snd (configure h w1)) = config_h (snd (configure h w2)))"
  using assms configure_result [of h w1] configure_result [of h w2] exit_code_abrupt [of h script_ops]
  by (auto split: sum.splits if_splits)

text \<open>
  C11. If any mandatory \<open>check\<close> of the script fails (its program does not compile, does
  not run, or exits non-zero), the run exits with status 1 and the header file is
  left as it was.
\<close>

theorem mandatory_check_failure_aborts:
  assumes "Check hdn feat headers example True link \<in> set script_ops"
    and "check_verdict h headers example link \<noteq> Ran 0"
  shows "fst (configure h w) = 1 \<and> config_h (snd (configure h w)) = config_h w"
proof -
  have "fst (op_spec h (Check hdn feat headers example True link)) \<noteq> Inr ()"
    using assms(2) by (auto simp: check_spec_def split: verdict.split)
  with assms(1) have "fst (run_spec h script_ops) \<noteq> Inr ()" by (rule run_spec_stops)
  then show ?thesis using configure_result [of h w] exit_code_abrupt [of h script_ops]
    by (auto split: sum.splits)
qed

text \<open>
  C12. The exit handler runs exactly once when the workspace could be entered (it is
  registered then, and every way the module ends goes through the interpreter's exit),
  and never otherwise.
\<close>

theorem cleanup_runs_once:
  "cleanups (snd (configure h w)) = (if ws_dir w \<or> ws_enterable h then 1 else 0)"
  using configure_result [of h w] by simp

text \<open>
  C13. When every probe of the script returns, the header's lines are, in probe order:
  the enabled \<open>HAVE_FPRINTF_STDERR\<close> and \<open>HAVE_STRTOL\<close> lines, then nothing, the enabled
  or the disabled \<open>HAVE_STRTOIMAX\<close> line, then the disabled or the valued
  \<open>COMPILER_ARCH\<close> line.
\<close>

theorem script_header_lines:
  assumes "fst (run_spec h script_ops) = Inr ()"
  shows "\<exists>imax arch.
    snd (run_spec h script_ops) =
      [enabled_line ''HAVE_FPRINTF_STDERR'', enabled_line ''HAVE_STRTOL''] @ imax @ [arch] \<and>
    imax \<in> {[], [enabled_line ''HAVE_STRTOIMAX''], [disabled_line ''HAVE_STRTOIMAX'']} \<and>
    (arch = disabled_line ''COMPILER_ARCH'' \<or> (\<exists>s. arch = value_line ''COMPILER_ARCH'' s))"
proof -
  from run_spec_ok [OF assms] have all: "\<forall>o1\<in>set script_ops. fst (op_spec h o1) = Inr ()"
    and lines: "snd (run_spec h script_ops) = concat (map (\<lambda>o1. snd (op_spec h o1)) script_ops)"
    by simp_all
  have "\<forall>o1\<in>set script_ops. snd (op_spec h o1) \<in> op_lines o1"
    using all op_spec_lines by blast
  then show ?thesis unfolding lines by (rule script_lines_shape)
qed

text \<open>
  C14. On a host that is not MSYS2, whose probe programs write no file other than the
  artifact names the exit handler knows, a run started with at most those names in the
  workspace ends with the workspace removed and the process back in the project
  directory, whatever the outcome of the probes.
\<close>

theorem workspace_removed:
  assumes "\<not> IS_MSYS2 h"
    and "\<forall>c r cr. run_bin h c = Some (r, cr) \<longrightarrow> set cr \<subseteq> known_artifacts"
    and "dom (map_of (fs w)) \<subseteq> known_artifacts"
  shows "\<not> ws_dir (snd (configure h w)) \<and> cwd (snd (configure h w)) = ProjectDir"
proof (cases "ws_dir w \<or> ws_enterable h")
  case False
  then show ?thesis
    by (simp add: configure_def module_main_def init_workspace_eq start_process_def process_exit_def
        py_seq_def py_bind_def)
next
  case True
  obtain w0 where i: "init_workspace h (start_process w) = (Inr (), w0)"
    and w0: "atexit w0 = False" "ws_dir w0" "cwd w0 = WorkspaceDir" "fs w0 = (if ws_dir w then fs w else [])"
    using init_workspace_ok [OF True] by metis
  obtain w3 where eq: "(fs w3, ws_dir w3, cwd w3, atexit w3) = (fs (snd (module_main h (start_process w))),
      ws_dir (snd (module_main h (start_process w))), cwd (snd (module_main h (start_process w))),
      atexit (snd (module_main h (start_process w))))"
    and w3: "w3 = snd (run_ops h script_ops (w0\<lparr>atexit := True\<rparr>))"
    using module_main_ws [OF i] by metis
  have "process_fields w3 = process_fields (w0\<lparr>atexit := True\<rparr>)"
    using keepsD [OF run_ops_keeps [of h script_ops], of "w0\<lparr>atexit := True\<rparr>"] w3 by simp
  then have f3: "ws_dir w3" "cwd w3 = WorkspaceDir" "atexit w3"
    using w0 by (simp_all add: process_fields_def)
  have "dom (map_of (fs w0)) \<subseteq> known_artifacts" using w0(4) assms(3) by simp
  then have k3: "dom (map_of (fs w3)) \<subseteq> known_artifacts"
    using run_ops_known [OF assms(1,2)] w3 by simp
  obtain r w5 where mm: "module_main h (start_process w) = (r, w5)"
    by (cases "module_main h (start_process w)")
  have "configure h w = (exit_code r, snd (try_cleanup w5))"
    using mm eq f3 by (simp add: configure_def process_exit_def)
  moreover have "\<not> ws_dir (snd (try_cleanup w5)) \<and> cwd (snd (try_cleanup w5)) = ProjectDir"
    using try_cleanup_removes_ws [of w5] mm eq f3 k3 by (simp add: dom_map_of_conv_image_fst)
  ultimately show ?thesis by simp
qed


text \<open>
  C16. The runner implements the abstract semantics: running any list of operations
  from any world ends the way \<open>run_spec\<close> says, appends exactly the lines it says to
  the buffer, and leaves the process state (header file, exit handler, workspace and
  current directory) as it was.
\<close>

theorem run_ops_implements_spec:
  "fst (run_ops h os w) = fst (run_spec h os) \<and>
   gen (snd (run_ops h os w)) = gen w @ snd (run_spec h os) \<and>
   process_fields (snd (run_ops h os w)) = process_fields w"
  using run_ops_refines [of h os w] keepsD [OF run_ops_keeps [of h os], of w] by simp

end
