(* ===== verification/Transcript.thy ===== *)
theory Transcript
  imports Configure
begin

text \<open>
  Logging presentation: what the probes print. \<open>out\<close> records every \<open>print\<close> call
  with its \<open>end\<close>; the transcript is their concatenation, the text a terminal shows.
  The theory gives the exact transcript a probe appends on its main paths and shows
  where it departs from one status line per probe: \<open>check\<close> prints its compiler
  command line after the status prefix, so the status word stands on a line of its own,
  and a mandatory \<open>check_header\<close> that fails prints its failure report and then the
  \<open>fail\<close> of the handler that swallowed its \<open>exit(1)\<close>.
\<close>

definition transcript :: "world \<Rightarrow> string" where
  "transcript w = concat (out w)"

definition line_count :: "string \<Rightarrow> nat" where
  "line_count s = length (filter (\<lambda>c. c = nl) s)"

lemma transcript_append [simp]: "transcript (w\<lparr>out := out w @ xs\<rparr>) = transcript w @ concat xs"
  by (simp add: transcript_def)

lemma line_count_append [simp]: "line_count (xs @ ys) = line_count xs + line_count ys"
  by (simp add: line_count_def)

lemma line_count_one_line: "one_line s \<Longrightarrow> line_count s = 0"
  by (auto simp: line_count_def one_line_def filter_empty_conv)

lemma one_line_status_prefix: "one_line subject \<Longrightarrow> one_line label \<Longrightarrow> one_line (status_prefix label subject)"
  by (simp add: status_prefix_def py_ljust_def one_line_def)

lemma one_line_py_join: "one_line sep \<Longrightarrow> \<forall>x\<in>set xs. one_line x \<Longrightarrow> one_line (py_join sep xs)"
  by (induction sep xs rule: py_join.induct) auto

lemma one_line_repr_list: "one_line (py_repr_list xs)"
  by (simp add: py_repr_list_def one_line_py_join one_line_py_repr)

lemma try_cleanup_out: "out (snd (try_cleanup w)) = out w"
  unfolding try_cleanup_def try_remove
  by (simp add: chdir_parent_def ws_rmdir_def world_simps split: prod.split)

text \<open>
  C17. \<open>check_bin\<close> prints one status line: the padded prefix, then \<open>ok\<close> when the
  command is on the search path and \<open>fail\<close> otherwise.
\<close>

theorem check_bin_transcript:
  "transcript (snd (check_bin h name w)) =
     transcript w @ status_prefix ''Checking binary: '' name @ (if on_path h name then ''ok'' else ''fail'') @ [nl]"
  by (simp add: check_bin_def world_simps)

text \<open>
  C18. A \<open>check\<close> whose program compiles and exits with 0 prints two lines, not one:
  the status prefix followed by the \<open>repr\<close> of the compiler command line, then the
  status word \<open>yes\<close> on a line of its own (line 60 of the source).
\<close>

theorem check_transcript_two_lines:
  assumes "ws_writable h" "gcc h (check_args h link) (check_source headers example) = Some (0, err)"
    and "run_bin h (Binary (check_source headers example) (check_args h link)) = Some (0, c)"
    and "one_line feat"
  shows "transcript (snd (check h head feat headers example mandatory link w)) =
           transcript w @ status_prefix ''Checking with c: '' feat @ py_repr_list (check_args h link) @ [nl] @
           ''yes'' @ [nl] \<and>
         line_count (drop (length (transcript w)) (transcript (snd (check h head feat headers example mandatory link w)))) = 2"
proof -
  have e: "gcc_output h (exe_path h) = exe_path h"
    by (simp add: gcc_output_def exe_path_def suffix_test_exe)
  have t: "transcript (snd (check h head feat headers example mandatory link w)) =
           transcript w @ status_prefix ''Checking with c: '' feat @ py_repr_list (check_args h link) @ [nl] @
           ''yes'' @ [nl]"
    using assms(1-3)
    by (simp add: check_def check_body_def e exe_path_ne world_simps fold_data_apply transcript_def
        split: prod.split option.split)
  have "one_line (status_prefix ''Checking with c: '' feat)" using assms(4) by (simp add: one_line_status_prefix)
  then show ?thesis using t one_line_repr_list [of "check_args h link"]
    by (simp add: line_count_one_line) (simp add: line_count_def)
qed

text \<open>
  C19. A mandatory \<open>check_header\<close> whose header does not compile prints its failure
  report (\<open>can't import\<close>, \<open>MANDATORY CHECK FAILED\<close>, the compiler's error output)
  and then \<open>fail\<close>: the bare \<open>except:\<close> has caught the \<open>SystemExit\<close> of its own
  \<open>exit(1)\<close>, so the status of the probe is reported twice.
\<close>

theorem check_header_mandatory_transcript:
  assumes "ws_writable h" "gcc h header_args (header_source header) = Some (rc, Some err)" "rc \<noteq> 0"
  shows "transcript (snd (check_header h head header True w)) =
           transcript w @ status_prefix ''Checking header: '' header @
           ''can'' @ [squote] @ ''t import'' @ [nl] @ ''MANDATORY CHECK FAILED'' @ [nl] @ err @ [nl] @
           ''fail'' @ [nl]"
  using assms
  by (simp add: check_header_def check_header_body_def mandatory_failed_def print_decoded_def
      world_simps transcript_def split: option.split)

text \<open>
  C20. A run that exits with status 0 ends its transcript with the completion message.
\<close>

theorem configure_success_transcript:
  assumes "fst (configure h w) = 0"
  shows "suffix (''CONFIGURE COMPLETE! You should be ready to build'' @ [nl]) (transcript (snd (configure h w)))"
proof -
  have ok: "ws_dir w \<or> ws_enterable h" "fst (run_spec h script_ops) = Inr ()" "header_writable h"
    using assms configure_result [of h w] exit_code_abrupt [of h script_ops]
    by (auto split: if_splits sum.splits)
  obtain w0 where i: "init_workspace h (start_process w) = (Inr (), w0)"
    using init_workspace_ok [OF ok(1)] by metis
  obtain w3 where run: "run_ops h script_ops (w0\<lparr>atexit := True\<rparr>) = (Inr (), w3)"
    using run_ops_refines [of h script_ops "w0\<lparr>atexit := True\<rparr>"] ok(2)
    by (cases "run_ops h script_ops (w0\<lparr>atexit := True\<rparr>)") simp
  define w4 where "w4 = w3\<lparr>config_h := Some (header_text (gen w3))\<rparr>"
  define msg where "msg = ''CONFIGURE COMPLETE! You should be ready to build'' @ [nl]"
  have "module_main h (start_process w) = (Inr (), w4\<lparr>out := out w4 @ [msg]\<rparr>)"
    using module_main_after_init [OF i] run ok(3)
    by (simp add: py_seq_Inr write_header_def w4_def msg_def py_print_def py_modify_def)
  then have "transcript (snd (configure h w)) = transcript w4 @ msg"
    by (simp add: configure_def process_exit_def try_cleanup_out transcript_def)
  then show ?thesis unfolding msg_def suffix_def by blast
qed

end
