(* ===== verification/Spec2Isabelle.thy ===== *)
theory Spec2Isabelle
  imports Transcript
begin

text \<open>
  \<^bold>\<open>A verification of \<^verbatim>\<open>src/configure.py\<close>.\<close> The script probes the build host
  before compilation: it checks that a few commands are on the search path, that the
  required C headers compile, that small C programs compile, link and run, and it
  captures the output of a shell command. It records what it found as macro lines in
  the global list \<open>GEN\<close> and finally writes them, after a fixed preamble, to
  \<^verbatim>\<open>../src/config.h\<close>. All probing happens inside a scratch directory \<^verbatim>\<open>./configure\<close>
  that the module creates and enters on import; an \<open>atexit\<close> handler removes the
  known artifacts and the directory whatever way the process ends. A mandatory probe
  that fails calls \<open>exit(1)\<close>, which skips the rest of the script and the header
  write.

  \<^bold>\<open>Theories and the code they model.\<close>
  \<^item> \<open>Prelude\<close>: the escape characters, one-line strings, the \<open>world_simps\<close> rule
    collection and generic list lemmas.
  \<^item> \<open>PyStr\<close>: the Python string built-ins the script calls (\<open>join\<close>, \<open>ljust\<close>,
    \<open>removesuffix\<close>, \<open>repr\<close>) and a decoder of string literals; \<open>repr\<close> follows
    CPython's \<open>unicode_repr\<close> for code points below 256.
  \<^item> \<open>Host\<close>: the host oracles (\<open>host\<close>: search path, \<open>MSYSTEM\<close>, compiler,
    produced programs, shell, permissions), the state (\<open>world\<close>: the files of the scratch
    directory, whether it exists and is the working directory, \<open>GEN\<close>, standard output,
    \<^verbatim>\<open>config.h\<close>, the atexit registry), an exception-state monad \<open>'a pyfun\<close> in which
    \<open>exit\<close>, \<open>try/except\<close> and \<open>try/except: pass\<close> are \<open>py_exit\<close>,
    \<open>py_catch\<close> and \<open>py_try_pass\<close>, and the runtime calls of the script: \<open>print\<close>,
    \<open>os.remove\<close>, \<open>open/write\<close> (\<open>write_source\<close>), \<open>subprocess.run\<close> of the compiler
    (\<open>run_gcc\<close>) and of a produced program (\<open>run_exe\<close>), \<open>GEN.append\<close>. Frame
    lemmas (\<open>keeps\<close>, collection \<open>keeps_intros\<close>) say which fields an operation leaves.
  \<^item> \<open>MacroBuffer\<close>: the three line shapes the probes append, the text of the header
    (\<open>header_text\<close>, lines 335--337) and a reader of it.
  \<^item> \<open>Probes\<close>: one definition per probe function with its body and its error path:
    \<open>check_bin\<close> (lines 23--28), \<open>check\<close> (31--111, split into \<open>check_body\<close> and
    \<open>check_error\<close>), \<open>check_header\<close> (114--153), \<open>define_stdout\<close> (156--167),
    \<open>cleanup_file\<close> (170--174); and the abstract contract of the compiling probes: a
    \<open>verdict\<close> of the host and the outcome and lines it yields (\<open>check_spec\<close>,
    \<open>check_header_spec\<close>).
  \<^item> \<open>Workspace\<close>: creation and entry of \<^verbatim>\<open>./configure\<close> (lines 16--20), the handler
    \<open>try_cleanup\<close> (177--195) and its registration (198), and \<open>process_exit\<close>, the
    interpreter's exit: the status of the way the module ended, after the handler ran.
  \<^item> \<open>Configure\<close>: the script body (205--332) as the list \<open>script_ops\<close> of probe
    calls with their arguments and C snippets verbatim, the runner \<open>run_ops\<close> that
    executes them in order and stops at the first abrupt completion, the header write
    (335--337), the module (\<open>module_main\<close>) and the whole process (\<open>configure\<close>:
    a fresh interpreter, then \<open>process_exit\<close>); and the abstract semantics
    \<open>op_spec\<close>/\<open>run_spec\<close> of the script as a function of the host alone.
  \<^item> \<open>Transcript\<close>: the standard output (\<open>out\<close>, one entry per \<open>print\<close>) as text, and
    the exact output of the probes on their main paths.
  \<^item> this theory: demonstration hosts (a Linux host whose \<^verbatim>\<open>unistd.h\<close> does not
    compile, a host without \<open>libcurl\<close>, an MSYS2 host that cannot start programs), the
    end-to-end property C21 and the witnesses, which apply each property with
    hypotheses to one of these hosts.

  \<^bold>\<open>What is proved.\<close> Per probe, its outcome and its contribution to \<open>GEN\<close> on every
  branch, errors included (C1, C2, C4, C5), and its effect on the scratch directory
  (C6, C7, C15). The header round trip: the written text parses back to the macro
  definitions (C3, through \<open>py_unrepr_py_repr\<close>). The runner refines the abstract
  semantics (C16, from \<open>exec_op_refines\<close>), hence a run's status and header depend
  on the host only (C10), the header is written exactly on status 0 (C8), the status is
  0 or 1 (C9), a failing mandatory \<open>check\<close> aborts the run (C11), the handler runs
  exactly once (C12), the lines of a successful run have a fixed shape (C13), and on a
  non-MSYS2 host the workspace is removed at the end of every run (C14). The
  transcript: \<open>check_bin\<close> prints one status line (C17), a succeeding \<open>check\<close> two
  (C18), a failing mandatory \<open>check_header\<close> reports its failure and then \<open>fail\<close>
  (C19), and a successful run ends with the completion message (C20). Across
  components, the header a successful run writes parses back to its macro definitions,
  in the order the script probes them (C21).

  \<^bold>\<open>Findings.\<close> The bare \<open>except:\<close> of \<open>check_header\<close> swallows the \<open>SystemExit\<close>
  of its own \<open>exit(1)\<close>, so a missing required header does not stop the run (C2);
  a named optional \<open>check\<close> that does not compile records no disabled macro (C1);
  \<open>check_header\<close> leaves \<^verbatim>\<open>./test.c\<close> and \<^verbatim>\<open>./test\<close> after a compiling probe (C15);
  \<open>check\<close> prints its compiler command line so that its status word stands on a line
  of its own (C18), and a failing mandatory \<open>check_header\<close> reports two statuses (C19);
  on MSYS2 the error path of \<open>check\<close> leaves \<^verbatim>\<open>./test.exe\<close> (C7); \<open>define_stdout\<close>
  renders its value with \<open>repr\<close>, single-quoted, and does not catch a shell that cannot
  start (C5).

  \<^bold>\<open>Modelling choices.\<close> No loop of the script can run forever in the model: the
  script is a finite list and every probe is straight-line code, so every definition is
  total and no fuel is needed; a hung compiler or program is outside the model (the
  host answers every call). The compiler on MSYS2 appends \<^verbatim>\<open>.exe\<close> to an output name
  without it (\<open>gcc_output\<close>); a failed compile creates no file. Files are contents
  of the one scratch directory; the project directory is not modelled beyond
  \<^verbatim>\<open>config.h\<close>, so \<open>os.chdir("..")\<close> succeeds only from the workspace. Standard
  error decoding and \<open>bytes.decode\<close> are oracles of the host (\<open>None\<close> for invalid
  UTF-8). The text printed is kept (\<open>out\<close>) with the \<open>end\<close> of each call; the
  interleaving of standard error with standard output is not modelled, since the
  script prints only to standard output.
  Not modelled: the host itself (the compiler, the shell and the file system are
  oracles), the packaging files of the repository, and characters above code point 255
  in \<open>repr\<close>.
\<close>

section \<open>Demonstration hosts\<close>

definition demo_world :: world where
  "demo_world = \<lparr>fs = [], ws_dir = True, cwd = WorkspaceDir, gen = [], out = [],
                 config_h = None, atexit = False, cleanups = 0\<rparr>"

definition linux_host :: host where
  "linux_host = \<lparr>msystem = None, on_path = (\<lambda>n. n \<noteq> ''nonexistent-tool''), ws_writable = True,
     gcc = (\<lambda>args src. if args = header_args \<and> src = header_source ''unistd.h''
                       then Some (1, Some ''unistd.h: No such file'') else Some (0, Some [])),
     run_bin = (\<lambda>c. Some (0, [])),
     bash = (\<lambda>cmd. Some (0, Some ''x86_64\<newline>'')),
     ws_enterable = True, header_writable = True\<rparr>"

text \<open>A host where linking against \<open>libcurl\<close> fails (scenario E of the spec).\<close>

definition curl_host :: host where
  "curl_host = linux_host\<lparr>gcc := (\<lambda>args src. if ''-lcurl'' \<in> set args
       then Some (1, Some ''undefined reference to curl_version'') else Some (0, Some []))\<rparr>"

definition msys_host :: host where
  "msys_host = \<lparr>msystem = Some ''UCRT64'', on_path = (\<lambda>_. True), ws_writable = True,
     gcc = (\<lambda>args src. Some (0, Some [])), run_bin = (\<lambda>c. None),
     bash = (\<lambda>cmd. None), ws_enterable = True, header_writable = True\<rparr>"

lemmas demo_defs = demo_world_def linux_host_def msys_host_def IS_MSYS2_def

text \<open>The whole script evaluated on \<open>linux_host\<close>: every probe returns.\<close>

lemma linux_run:
  "run_spec linux_host script_ops = (Inr (), [enabled_line ''HAVE_FPRINTF_STDERR'',
     enabled_line ''HAVE_STRTOL'', enabled_line ''HAVE_STRTOIMAX'',
     value_line ''COMPILER_ARCH'' ''x86_64\<newline>''])"
  by (simp add: script_ops_def REQUIRED_HEADERS_def linux_host_def check_verdict_def header_verdict_def
      check_spec_def check_header_spec_def head_lines_def header_args_def check_args_def Let_def)

lemma linux_configure:
  "fst (configure linux_host demo_world) = 0 \<and>
   config_h (snd (configure linux_host demo_world)) = Some (header_text (snd (run_spec linux_host script_ops)))"
  using configure_result [of linux_host demo_world] linux_run
  by (simp add: demo_world_def linux_host_def)

lemma curl_op_in_script:
  "Check None ''Can link with curl'' [''curl/curl.h'']
     (py_join [nl] [''char *ver = curl_version();'', ''printf(ver);'', ''return 0;''] @ [nl]) True [''curl'']
   \<in> set script_ops"
  by (simp add: script_ops_def)

lemma wf_named: "wf_def (MacroDef ''HAVE_FPRINTF_STDERR'' e None)" "wf_def (MacroDef ''HAVE_STRTOL'' e None)"
  "wf_def (MacroDef ''HAVE_STRTOIMAX'' e None)" "wf_def (MacroDef ''COMPILER_ARCH'' e None)"
  "wf_def (MacroDef ''COMPILER_ARCH'' True v)"
  by (simp_all add: wf_def_def)

text \<open>
  C21. The header of a successful run reads back: \<^verbatim>\<open>config.h\<close> is the text written
  from a list of well-formed macro definitions, parsing it gives that list, and the
  macros are, in order, \<open>HAVE_FPRINTF_STDERR\<close>, \<open>HAVE_STRTOL\<close>, possibly
  \<open>HAVE_STRTOIMAX\<close>, and \<open>COMPILER_ARCH\<close>.
\<close>

theorem configure_header_parses:
  assumes "fst (configure h w) = 0"
  shows "\<exists>ds. config_h (snd (configure h w)) = Some (header_text (map render_def ds)) \<and>
           parse_header (header_text (map render_def ds)) = Some ds \<and>
           map mname ds \<in> {[''HAVE_FPRINTF_STDERR'', ''HAVE_STRTOL'', ''COMPILER_ARCH''],
                            [''HAVE_FPRINTF_STDERR'', ''HAVE_STRTOL'', ''HAVE_STRTOIMAX'', ''COMPILER_ARCH'']}"
proof -
  have ok: "fst (run_spec h script_ops) = Inr ()"
    and c: "config_h (snd (configure h w)) = Some (header_text (snd (run_spec h script_ops)))"
    using assms configure_result [of h w] exit_code_abrupt [of h script_ops]
    by (auto split: if_splits sum.splits)

  from run_spec_ok [OF ok] have all: "\<forall>o1\<in>set script_ops. fst (op_spec h o1) = Inr ()"
    and lines: "snd (run_spec h script_ops) = concat (map (\<lambda>o1. snd (op_spec h o1)) script_ops)"
    by simp_all
  have "\<forall>o1\<in>set script_ops. snd (op_spec h o1) \<in> op_lines o1"
    using all op_spec_lines by blast
  from script_lines_shape [OF this] obtain imax arch where
    sh: "snd (run_spec h script_ops) =
      [enabled_line ''HAVE_FPRINTF_STDERR'', enabled_line ''HAVE_STRTOL''] @ imax @ [arch]"
    and im: "imax \<in> {[], [enabled_line ''HAVE_STRTOIMAX''], [disabled_line ''HAVE_STRTOIMAX'']}"
    and ar: "arch = disabled_line ''COMPILER_ARCH'' \<or> (\<exists>s. arch = value_line ''COMPILER_ARCH'' s)"
    unfolding lines [symmetric] by blast
  obtain dsi where dsi: "imax = map render_def dsi" "\<forall>d\<in>set dsi. wf_def d"
    "map mname dsi \<in> {[], [''HAVE_STRTOIMAX'']}"
  proof -
    from im consider "imax = []" | "imax = [enabled_line ''HAVE_STRTOIMAX'']"
      | "imax = [disabled_line ''HAVE_STRTOIMAX'']" by blast
    then show thesis
    proof cases
      case 1
      then show ?thesis by (intro that [of "[]"]) simp_all
    next
      case 2
      then show ?thesis by (intro that [of "[MacroDef ''HAVE_STRTOIMAX'' True None]"]) (simp_all add: wf_named)
    next
      case 3
      then show ?thesis by (intro that [of "[MacroDef ''HAVE_STRTOIMAX'' False None]"]) (simp_all add: wf_named)
    qed
  qed
  obtain da where da: "arch = render_def da" "wf_def da" "mname da = ''COMPILER_ARCH''"
  proof -
    from ar show thesis
    proof
      assume "arch = disabled_line ''COMPILER_ARCH''"
      then show thesis by (intro that [of "MacroDef ''COMPILER_ARCH'' False None"]) (simp_all add: wf_named)
    next
      assume "\<exists>s. arch = value_line ''COMPILER_ARCH'' s"
      then obtain s where "arch = value_line ''COMPILER_ARCH'' s" by blast
      then show thesis
        by (intro that [of "MacroDef ''COMPILER_ARCH'' True (Some (py_removesuffix s [nl]))"])
           (simp_all add: wf_named value_line_def)
    qed
  qed
  define ds where "ds = [MacroDef ''HAVE_FPRINTF_STDERR'' True None, MacroDef ''HAVE_STRTOL'' True None] @ dsi @ [da]"
  have r: "snd (run_spec h script_ops) = map render_def ds" using sh dsi da by (simp add: ds_def)
  have wf: "\<forall>d\<in>set ds. wf_def d" using dsi da by (simp add: ds_def wf_named)
  show ?thesis
  proof (intro exI conjI)
    show "config_h (snd (configure h w)) = Some (header_text (map render_def ds))" using c r by simp
    show "parse_header (header_text (map render_def ds)) = Some ds" using wf by (rule parse_header_render)
    show "map mname ds \<in> {[''HAVE_FPRINTF_STDERR'', ''HAVE_STRTOL'', ''COMPILER_ARCH''],
                           [''HAVE_FPRINTF_STDERR'', ''HAVE_STRTOL'', ''HAVE_STRTOIMAX'', ''COMPILER_ARCH'']}"
      using dsi(3) da(3) by (auto simp: ds_def)
  qed
qed


section \<open>Witnesses\<close>

theorem check_outcome_witness:
  "fst (check linux_host (Some ''HAVE_STRTOL'') ''strtol can be used'' [''inttypes.h'', ''stdlib.h'']
          ''return 0;'' True [] demo_world) = Inr () \<and>
   gen (snd (check linux_host (Some ''HAVE_STRTOL'') ''strtol can be used'' [''inttypes.h'', ''stdlib.h'']
          ''return 0;'' True [] demo_world)) = [''#define HAVE_STRTOL'']"
  using check_outcome [of linux_host "Some ''HAVE_STRTOL''" "''strtol can be used''"
      "[''inttypes.h'', ''stdlib.h'']" "''return 0;''" True "[]" demo_world]
  by (simp add: demo_defs check_verdict_def check_spec_def head_lines_def enabled_line_def
      check_source_def header_source_def)

theorem check_header_mandatory_continues_witness:
  "fst (check_header linux_host None ''unistd.h'' True demo_world) = Inr () \<and>
   gen (snd (check_header linux_host None ''unistd.h'' True demo_world)) = []"
proof -
  have w: "ws_writable linux_host" and g: "gcc linux_host header_args (header_source ''unistd.h'')
             = Some (1, Some ''unistd.h: No such file'')"
    by (simp_all add: linux_host_def)
  show ?thesis
    using check_header_mandatory_continues [OF w g _, of None demo_world]
    by (simp add: w g head_lines_def demo_world_def)
qed

theorem header_roundtrip_witness:
  "parse_header (header_text (map render_def [MacroDef ''HAVE_STRTOL'' True None,
       MacroDef ''HAVE_STRTOIMAX'' False None, MacroDef ''COMPILER_ARCH'' True (Some ''x86_64'')]))
   = Some [MacroDef ''HAVE_STRTOL'' True None, MacroDef ''HAVE_STRTOIMAX'' False None,
           MacroDef ''COMPILER_ARCH'' True (Some ''x86_64'')]"
proof -
  have wf: "\<forall>d\<in>set [MacroDef ''HAVE_STRTOL'' True None, MacroDef ''HAVE_STRTOIMAX'' False None,
             MacroDef ''COMPILER_ARCH'' True (Some ''x86_64'')]. wf_def d"
    by (simp add: wf_def_def)
  show ?thesis by (rule header_roundtrip [OF wf])
qed

theorem check_bin_outcome_witness:
  "fst (check_bin linux_host ''nonexistent-tool'' demo_world) = Inl (SysExit 1) \<and>
   gen (snd (check_bin linux_host ''nonexistent-tool'' demo_world)) = []"
  using check_bin_outcome [of linux_host "''nonexistent-tool''" demo_world]
  by (simp add: demo_defs)

theorem define_stdout_outcome_witness:
  "fst (define_stdout linux_host (Some ''COMPILER_ARCH'') ''architecture'' ''uname -m'' False demo_world) = Inr () \<and>
   gen (snd (define_stdout linux_host (Some ''COMPILER_ARCH'') ''architecture'' ''uname -m'' False demo_world))
     = [''#define COMPILER_ARCH '' @ [squote] @ ''x86_64'' @ [squote]]"
proof -
  have b: "bash linux_host ''uname -m'' = Some (0, Some ''x86_64\<newline>'')"
    by (simp add: linux_host_def)
  have v: "value_line ''COMPILER_ARCH'' ''x86_64\<newline>'' = ''#define COMPILER_ARCH '' @ [squote] @ ''x86_64'' @ [squote]"
    by (simp add: value_line_def py_removesuffix_def py_repr_def repr_quote_def repr_char_def
        nonprintable_def suffix_def Let_def)
  show ?thesis
    using define_stdout_outcome [of linux_host "Some ''COMPILER_ARCH''" "''architecture''" "''uname -m''" False demo_world]
    by (simp add: b v head_lines_def demo_world_def)
qed

theorem check_fs_clean_witness:
  "dom (map_of (fs (snd (check linux_host None ''strlen'' [''string.h''] ''return 0;'' True [] demo_world))))
     \<subseteq> (dom (map_of (fs demo_world)) - {''./test.c''}) \<union> check_creates linux_host [''string.h''] ''return 0;'' []"
proof -
  have m: "\<not> IS_MSYS2 linux_host" by (simp add: demo_defs)
  show ?thesis using check_fs_clean [OF m, of None "''strlen''" "[''string.h'']" "''return 0;''" True "[]" demo_world]
    by simp
qed

theorem check_msys_leaves_exe_witness:
  "map_of (fs (snd (check msys_host None ''strlen'' [''string.h''] ''return 0;'' False [] demo_world))) ''./test.exe''
     = Some (Binary (check_source [''string.h''] ''return 0;'') (check_args msys_host []))"
proof -
  have h: "IS_MSYS2 msys_host" "ws_writable msys_host" "map_of (fs demo_world) ''./test'' = None"
     "gcc msys_host (check_args msys_host []) (check_source [''string.h''] ''return 0;'') = Some (0, Some [])"
     "run_bin msys_host (Binary (check_source [''string.h''] ''return 0;'') (check_args msys_host [])) = None"
    by (simp_all add: demo_defs)
  show ?thesis by (rule check_msys_leaves_exe [OF h])
qed

theorem configure_header_iff_success_witness:
  "config_h (snd (configure linux_host demo_world)) = Some (header_text [enabled_line ''HAVE_FPRINTF_STDERR'',
     enabled_line ''HAVE_STRTOL'', enabled_line ''HAVE_STRTOIMAX'', value_line ''COMPILER_ARCH'' ''x86_64\<newline>''])"
  using configure_header_iff_success [of linux_host demo_world] linux_configure linux_run by simp

theorem configure_deterministic_witness:
  "fst (configure linux_host demo_world) = fst (configure linux_host (demo_world\<lparr>ws_dir := False\<rparr>)) \<and>
   config_h (snd (configure linux_host demo_world))
     = config_h (snd (configure linux_host (demo_world\<lparr>ws_dir := False\<rparr>)))"
proof -
  have e: "(ws_dir demo_world \<or> ws_enterable linux_host)
         = (ws_dir (demo_world\<lparr>ws_dir := False\<rparr>) \<or> ws_enterable linux_host)"
    by (simp add: demo_world_def linux_host_def)
  show ?thesis using configure_deterministic [OF e] linux_configure by simp
qed

theorem mandatory_check_failure_aborts_witness:
  "fst (configure curl_host demo_world) = 1 \<and> config_h (snd (configure curl_host demo_world)) = None"
proof -
  have v: "check_verdict curl_host [''curl/curl.h'']
      (py_join [nl] [''char *ver = curl_version();'', ''printf(ver);'', ''return 0;''] @ [nl]) [''curl'']
      \<noteq> Ran 0"
    by (simp add: check_verdict_def curl_host_def linux_host_def check_args_def link_flags_def
        exe_path_def IS_MSYS2_def Let_def)
  show ?thesis using mandatory_check_failure_aborts [OF curl_op_in_script v, of demo_world]
    by (simp add: demo_world_def)
qed

theorem script_header_lines_witness:
  "\<exists>imax arch.
    snd (run_spec linux_host script_ops) =
      [enabled_line ''HAVE_FPRINTF_STDERR'', enabled_line ''HAVE_STRTOL''] @ imax @ [arch] \<and>
    imax \<in> {[], [enabled_line ''HAVE_STRTOIMAX''], [disabled_line ''HAVE_STRTOIMAX'']} \<and>
    (arch = disabled_line ''COMPILER_ARCH'' \<or> (\<exists>s. arch = value_line ''COMPILER_ARCH'' s))"
proof -
  have ok: "fst (run_spec linux_host script_ops) = Inr ()" by (simp add: linux_run)
  show ?thesis by (rule script_header_lines [OF ok])
qed

theorem workspace_removed_witness:
  "\<not> ws_dir (snd (configure linux_host (demo_world\<lparr>fs := [(''./temp'', Data)]\<rparr>))) \<and>
   cwd (snd (configure linux_host (demo_world\<lparr>fs := [(''./temp'', Data)]\<rparr>))) = ProjectDir"
proof -
  have m: "\<not> IS_MSYS2 linux_host"
    and r: "\<forall>c r cr. run_bin linux_host c = Some (r, cr) \<longrightarrow> set cr \<subseteq> known_artifacts"
    and k: "dom (map_of (fs (demo_world\<lparr>fs := [(''./temp'', Data)]\<rparr>))) \<subseteq> known_artifacts"
    by (simp_all add: demo_defs known_artifacts_def)
  show ?thesis by (rule workspace_removed [OF m r k])
qed

theorem check_header_leaves_artifacts_witness:
  "map_of (fs (snd (check_header linux_host None ''stdio.h'' True demo_world))) ''./test.c''
     = Some (Source (header_source ''stdio.h'')) \<and>
   map_of (fs (snd (check_header linux_host None ''stdio.h'' True demo_world))) ''./test''
     = Some (Binary (header_source ''stdio.h'') header_args)"
proof -
  have h: "\<not> IS_MSYS2 linux_host" "ws_writable linux_host"
    "gcc linux_host header_args (header_source ''stdio.h'') = Some (0, Some [])"
    by (simp_all add: demo_defs header_source_def)
  show ?thesis by (rule check_header_leaves_artifacts [OF h])
qed

theorem check_transcript_two_lines_witness:
  "transcript (snd (check linux_host None ''strlen'' [''string.h''] ''return 0;'' True [] demo_world)) =
     status_prefix ''Checking with c: '' ''strlen'' @ py_repr_list (check_args linux_host []) @ [nl] @
     ''yes'' @ [nl]"
proof -
  have h: "ws_writable linux_host"
    "gcc linux_host (check_args linux_host []) (check_source [''string.h''] ''return 0;'') = Some (0, Some [])"
    "run_bin linux_host (Binary (check_source [''string.h''] ''return 0;'') (check_args linux_host [])) = Some (0, [])"
    "one_line ''strlen''"
    by (simp_all add: linux_host_def check_args_def header_args_def)
  show ?thesis using check_transcript_two_lines [OF h, of None True demo_world]
    by (simp add: demo_world_def transcript_def)
qed

theorem check_header_mandatory_transcript_witness:
  "transcript (snd (check_header linux_host None ''unistd.h'' True demo_world)) =
     status_prefix ''Checking header: '' ''unistd.h'' @
     ''can'' @ [squote] @ ''t import'' @ [nl] @ ''MANDATORY CHECK FAILED'' @ [nl] @
     ''unistd.h: No such file'' @ [nl] @ ''fail'' @ [nl]"
proof -
  have h: "ws_writable linux_host"
    "gcc linux_host header_args (header_source ''unistd.h'') = Some (1, Some ''unistd.h: No such file'')"
    "(1::int) \<noteq> 0"
    by (simp_all add: linux_host_def)
  show ?thesis using check_header_mandatory_transcript [OF h, of None demo_world]
    by (simp add: demo_world_def transcript_def)
qed

theorem configure_success_transcript_witness:
  "suffix (''CONFIGURE COMPLETE! You should be ready to build'' @ [nl])
     (transcript (snd (configure linux_host demo_world)))"
proof -
  have "fst (configure linux_host demo_world) = 0" using linux_configure by simp
  then show ?thesis by (rule configure_success_transcript)
qed

theorem configure_header_parses_witness:
  "\<exists>ds. config_h (snd (configure linux_host demo_world)) = Some (header_text (map render_def ds)) \<and>
     parse_header (header_text (map render_def ds)) = Some ds \<and>
     map mname ds \<in> {[''HAVE_FPRINTF_STDERR'', ''HAVE_STRTOL'', ''COMPILER_ARCH''],
                      [''HAVE_FPRINTF_STDERR'', ''HAVE_STRTOL'', ''HAVE_STRTOIMAX'', ''COMPILER_ARCH'']}"
proof -
  have "fst (configure linux_host demo_world) = 0" using linux_configure by simp
  then show ?thesis by (rule configure_header_parses)
qed

end
